theory Spec2Isabelle
  imports Complex_Main
begin

section \<open>Portilla-Simoncelli texture statistics: parameters and scale labels\<close>

text \<open>
  The constructor parameters of \<^verbatim>\<open>PortillaSimoncelli\<close> that the statistics depend on.
  The pyramid itself is an external collaborator and is not part of the record.
\<close>

record ps_params =
  n_scales :: nat
  n_orientations :: nat
  spatial_corr_width :: nat
  use_true_correlations :: bool

text \<open>
  A scale label is a Python value of type \<^verbatim>\<open>SCALES_TYPE\<close>: an integer or a string.
\<close>

datatype scale_label = ScaleInt int | ScaleStr string

text \<open>Python's \<^verbatim>\<open>k * xs\<close> on a list: \<^verbatim>\<open>xs\<close> repeated \<^verbatim>\<open>k\<close> times.\<close>

definition list_times :: "nat \<Rightarrow> 'a list \<Rightarrow> 'a list" where
  "list_times k xs = concat (replicate k xs)"

text \<open>\<^verbatim>\<open>max(2 * self.n_orientations, 5)\<close>, used by both the labels and the codec.\<close>

definition ori_crossed :: "ps_params \<Rightarrow> nat" where
  "ori_crossed p = max (2 * n_orientations p) 5"

text \<open>\<^verbatim>\<open>PortillaSimoncelli._get_representation_scales\<close>.\<close>

definition get_representation_scales :: "ps_params \<Rightarrow> scale_label list" where
  "get_representation_scales p =
     (let pixel_statistics = replicate 6 (ScaleStr ''pixel_statistics'');
          scales = map (\<lambda>s. ScaleInt (int s)) [0..<n_scales p];
          scales_with_lowpass = scales @ [ScaleStr ''residual_lowpass''];
          scales_by_ori = concat (map (\<lambda>s. replicate (n_orientations p) s) scales);
          magnitude_means =
            [ScaleStr ''residual_highpass''] @ scales_by_ori @ [ScaleStr ''residual_lowpass''];
          skew_reconstructed = scales_with_lowpass;
          kurtosis_reconstructed = scales_with_lowpass;
          std_reconstructed = scales_with_lowpass;
          auto_corr = list_times ((spatial_corr_width p)\<^sup>2) scales_with_lowpass;
          auto_corr_mag = list_times ((spatial_corr_width p)\<^sup>2) scales_by_ori;
          cross_orientation_corr_mag = list_times ((n_orientations p)\<^sup>2) scales_with_lowpass;
          cross_orientation_corr_real = list_times ((ori_crossed p)\<^sup>2) scales_with_lowpass;
          cross_scale_corr_mag = list_times ((n_orientations p)\<^sup>2) scales;
          cross_scale_corr_real = list_times (2 * n_orientations p * ori_crossed p) scales;
          var_highpass_residual = [ScaleStr ''residual_highpass'']
      in if use_true_correlations p
         then pixel_statistics @ magnitude_means @ auto_corr_mag @ skew_reconstructed
              @ kurtosis_reconstructed @ auto_corr @ std_reconstructed
              @ cross_orientation_corr_mag @ cross_scale_corr_mag
              @ cross_orientation_corr_real @ cross_scale_corr_real @ var_highpass_residual
         else pixel_statistics @ magnitude_means @ auto_corr_mag @ skew_reconstructed
              @ kurtosis_reconstructed @ auto_corr
              @ cross_orientation_corr_mag @ cross_scale_corr_mag
              @ cross_orientation_corr_real @ cross_scale_corr_real @ var_highpass_residual)"

text \<open>The attribute \<^verbatim>\<open>self.representation_scales\<close>, set once in \<^verbatim>\<open>__init__\<close>.\<close>

definition representation_scales :: "ps_params \<Rightarrow> scale_label list" where
  "representation_scales p = get_representation_scales p"

text \<open>
  The labels a representation entry may carry according to the docstring of
  \<^verbatim>\<open>_get_representation_scales\<close>.
\<close>

definition valid_label :: "ps_params \<Rightarrow> scale_label \<Rightarrow> bool" where
  "valid_label p l =
     (l = ScaleStr ''pixel_statistics'' \<or> l = ScaleStr ''residual_lowpass''
      \<or> l = ScaleStr ''residual_highpass''
      \<or> (case l of ScaleInt i \<Rightarrow> 0 \<le> i \<and> i < int (n_scales p) | ScaleStr _ \<Rightarrow> False))"

section \<open>Tensors with a batch and a channel axis\<close>

text \<open>
  Every tensor the codec handles has the axes (batch, channel, ...). A tensor is kept as
  the list of its remaining (trailing) dimensions together with, for every batch and
  channel, the row-major flattening of the trailing axes. \<^verbatim>\<open>t.ndim\<close> is two more than
  the number of trailing dimensions.
\<close>

record 'a tensor =
  trailing :: "nat list"
  body :: "'a list list list"

definition ndim :: "'a tensor \<Rightarrow> nat" where
  "ndim t = 2 + length (trailing t)"

text \<open>The (batch, channel) skeleton of a tensor: the number of channels of every batch.\<close>

definition lead :: "'a tensor \<Rightarrow> nat list" where
  "lead t = map length (body t)"

text \<open>Every row holds as many values as the trailing dimensions say.\<close>

definition wf_tensor :: "'a tensor \<Rightarrow> bool" where
  "wf_tensor t = list_all (list_all (\<lambda>r. length r = prod_list (trailing t))) (body t)"

text \<open>The representation vector is 3d: (batch, channel, L).\<close>

definition wf_vec :: "'a tensor \<Rightarrow> bool" where
  "wf_vec t = (length (trailing t) = 1 \<and> wf_tensor t)"

definition last_dim :: "'a tensor \<Rightarrow> nat" where
  "last_dim t = last (trailing t)"

datatype error =
    WrongLength nat nat
  | IndexError
  | ShapeError
  | IndexDtypeError

definition bind_err :: "error + 'a \<Rightarrow> ('a \<Rightarrow> error + 'b) \<Rightarrow> error + 'b" where
  "bind_err m f = (case m of Inl e \<Rightarrow> Inl e | Inr x \<Rightarrow> f x)"

fun all_ok :: "(error + 'a) list \<Rightarrow> error + 'a list" where
  "all_ok [] = Inr []"
| "all_ok (m # ms) =
     (case m of Inl e \<Rightarrow> Inl e
      | Inr x \<Rightarrow> (case all_ok ms of Inl e \<Rightarrow> Inl e | Inr xs \<Rightarrow> Inr (x # xs)))"

text \<open>\<^verbatim>\<open>vec[..., i]\<close> on a 3d tensor: IndexError when \<^verbatim>\<open>i\<close> is out of range.\<close>

definition select_last :: "'a tensor \<Rightarrow> nat \<Rightarrow> error + 'a tensor" where
  "select_last vec i =
     (if i < last_dim vec
      then Inr \<lparr>trailing = [], body = map (map (\<lambda>r. [r ! i])) (body vec)\<rparr>
      else Inl IndexError)"

text \<open>
  \<^verbatim>\<open>vec[..., a:b]\<close> on a 3d tensor, for \<^verbatim>\<open>0 <= a <= b\<close>: a slice never raises, it is
  clipped to the length of the axis.
\<close>

definition slice_last :: "'a tensor \<Rightarrow> nat \<Rightarrow> nat \<Rightarrow> 'a tensor" where
  "slice_last vec a b =
     \<lparr>trailing = [min b (last_dim vec) - min a (last_dim vec)],
      body = map (map (\<lambda>r. take (b - a) (drop a r))) (body vec)\<rparr>"

text \<open>\<^verbatim>\<open>t.unflatten(-1, nn)\<close>: the last axis must hold exactly \<^verbatim>\<open>prod(nn)\<close> values.\<close>

definition unflatten_last :: "'a tensor \<Rightarrow> nat list \<Rightarrow> error + 'a tensor" where
  "unflatten_last t nn =
     (if trailing t \<noteq> [] \<and> last_dim t = prod_list nn
      then Inr (t\<lparr>trailing := butlast (trailing t) @ nn\<rparr>)
      else Inl ShapeError)"

text \<open>\<^verbatim>\<open>t.unsqueeze(-1)\<close> and \<^verbatim>\<open>t.flatten(start_dim=2, end_dim=-1)\<close>.\<close>

definition unsqueeze_last :: "'a tensor \<Rightarrow> 'a tensor" where
  "unsqueeze_last t = t\<lparr>trailing := trailing t @ [1]\<rparr>"

definition flatten_from2 :: "'a tensor \<Rightarrow> 'a tensor" where
  "flatten_from2 t = t\<lparr>trailing := [prod_list (trailing t)]\<rparr>"

text \<open>The rows that a list of tensors holds at one (batch, channel) position.\<close>

definition rows_at :: "'a tensor list \<Rightarrow> nat \<Rightarrow> nat \<Rightarrow> 'a list list" where
  "rows_at ts b c = map (\<lambda>t. body t ! b ! c) ts"

definition combine_rows :: "('a list list \<Rightarrow> 'a list) \<Rightarrow> 'a tensor list \<Rightarrow> 'a list list list" where
  "combine_rows f ts =
     map (\<lambda>b. map (\<lambda>c. f (rows_at ts b c)) [0..<length (body (hd ts) ! b)])
       [0..<length (body (hd ts))]"

definition same_shapes :: "'a tensor list \<Rightarrow> bool" where
  "same_shapes ts =
     list_all (\<lambda>t. lead t = lead (hd ts) \<and> trailing t = trailing (hd ts)) ts"

text \<open>
  \<^verbatim>\<open>torch.stack(ts, dim=-1)\<close>: the tensors must have one shape; the new last axis
  indexes the tensors, so in row-major order the values of the tensors interleave.
\<close>

definition stack_last :: "'a tensor list \<Rightarrow> error + 'a tensor" where
  "stack_last ts =
     (if ts = [] \<or> \<not> same_shapes ts then Inl ShapeError
      else Inr \<lparr>trailing = trailing (hd ts) @ [length ts],
                body = combine_rows (\<lambda>rs. concat (transpose rs)) ts\<rparr>)"

text \<open>The \<^verbatim>\<open>k\<close> consecutive pieces of length \<^verbatim>\<open>n\<close> of a flattened row.\<close>

definition chunks :: "nat \<Rightarrow> nat \<Rightarrow> 'a list \<Rightarrow> 'a list list" where
  "chunks k n xs = map (\<lambda>i. take n (drop (i * n) xs)) [0..<k]"

text \<open>
  \<^verbatim>\<open>torch.cat(ts, dim=-1)\<close> for tensors with at least three axes: all axes but the
  last must agree; along the last axis the tensors are laid one after the other.
\<close>

definition cat_compatible :: "'a tensor list \<Rightarrow> bool" where
  "cat_compatible ts =
     list_all (\<lambda>t. trailing t \<noteq> [] \<and> lead t = lead (hd ts)
                 \<and> butlast (trailing t) = butlast (trailing (hd ts))) ts"

definition cat_row :: "nat \<Rightarrow> (nat \<times> 'a list) list \<Rightarrow> 'a list" where
  "cat_row k nrs = concat (map (\<lambda>i. concat (map (\<lambda>(n, r). chunks k n r ! i) nrs)) [0..<k])"

definition cat_last :: "'a tensor list \<Rightarrow> error + 'a tensor" where
  "cat_last ts =
     (if ts = [] \<or> \<not> cat_compatible ts then Inl ShapeError
      else Inr \<lparr>trailing = butlast (trailing (hd ts)) @ [sum_list (map last_dim ts)],
                body = combine_rows
                  (\<lambda>rs. cat_row (prod_list (butlast (trailing (hd ts)))) (zip (map last_dim ts) rs))
                  ts\<rparr>)"

text \<open>
  \<^verbatim>\<open>t.index_select(-1, ind)\<close> on a 3d tensor, where \<^verbatim>\<open>ind = torch.tensor(idx)\<close> is
  built from a Python list of integers. \<^verbatim>\<open>torch.tensor([])\<close> has the default floating
  dtype, and \<^verbatim>\<open>index_select\<close> rejects an index tensor that is not of an integer dtype;
  it also rejects an index outside the axis.
\<close>

definition index_select_last :: "'a tensor \<Rightarrow> nat list \<Rightarrow> error + 'a tensor" where
  "index_select_last t idx =
     (if idx = [] then Inl IndexDtypeError
      else if list_ex (\<lambda>i. last_dim t \<le> i) idx then Inl IndexError
      else Inr \<lparr>trailing = [length idx], body = map (map (\<lambda>r. map (\<lambda>i. r ! i) idx)) (body t)\<rparr>)"

section \<open>The vector and dictionary forms of the representation\<close>

text \<open>
  Keys of the nested dictionaries: a string, or a (scale, orientation) tuple. A value
  of the statistics dictionary is a nested \<^verbatim>\<open>OrderedDict\<close> or a tensor. Both levels keep
  their insertion order, which \<^verbatim>\<open>convert_to_vector\<close> iterates over.
\<close>

datatype stat_key = KStr string | KBand nat nat

datatype 'a stat_value = Nested "(stat_key \<times> 'a tensor) list" | Leaf "'a tensor"

type_synonym 'a stats_dict = "(string \<times> 'a stat_value) list"

text \<open>One iteration of the loop of \<^verbatim>\<open>convert_to_vector\<close>.\<close>

fun stat_to_tensor :: "'a stat_value \<Rightarrow> error + 'a tensor" where
  "stat_to_tensor (Nested d) = stack_last (map snd d)"
| "stat_to_tensor (Leaf val) =
     (if ndim val = 2 then Inr (unsqueeze_last val) else Inr (flatten_from2 val))"

text \<open>\<^verbatim>\<open>PortillaSimoncelli.convert_to_vector\<close>.\<close>

definition convert_to_vector :: "'a stats_dict \<Rightarrow> error + 'a tensor" where
  "convert_to_vector stats_dict =
     bind_err (all_ok (map (\<lambda>(k, val). stat_to_tensor val) stats_dict)) cat_last"

text \<open>
  \<^verbatim>\<open>vec[..., n_filled : n_filled + prod(nn)].unflatten(-1, nn)\<close>, the step that
  \<^verbatim>\<open>convert_to_dict\<close> repeats for every block with more than one axis.
\<close>

definition take_block :: "'a tensor \<Rightarrow> nat \<Rightarrow> nat list \<Rightarrow> error + 'a tensor" where
  "take_block vec n_filled nn =
     unflatten_last (slice_last vec n_filled (n_filled + prod_list nn)) nn"

text \<open>The keys of \<^verbatim>\<open>rep["magnitude_means"]\<close>.\<close>

definition magnitude_means_keys :: "ps_params \<Rightarrow> stat_key list" where
  "magnitude_means_keys p =
     [KStr ''residual_highpass'']
     @ concat (map (\<lambda>sc. map (\<lambda>ori. KBand sc ori) [0..<n_orientations p]) [0..<n_scales p])
     @ [KStr ''residual_lowpass'']"

text \<open>A nested dictionary filled with \<^verbatim>\<open>vec[..., n_filled + ii]\<close> for \<^verbatim>\<open>ii, k in enumerate(keys)\<close>.\<close>

definition select_keys :: "'a tensor \<Rightarrow> nat \<Rightarrow> stat_key list \<Rightarrow> error + (stat_key \<times> 'a tensor) list" where
  "select_keys vec n_filled keys =
     all_ok (map (\<lambda>(ii, k). bind_err (select_last vec (n_filled + ii)) (\<lambda>t. Inr (k, t)))
               (zip [0..<length keys] keys))"

text \<open>
  \<^verbatim>\<open>PortillaSimoncelli.convert_to_dict\<close>. The running offset \<^verbatim>\<open>n_filled\<close> is threaded
  through the \<^verbatim>\<open>let\<close>s as \<^verbatim>\<open>n0\<close>, \<^verbatim>\<open>n1\<close>, ...; after the loop over the magnitude keys the
  source adds \<^verbatim>\<open>ii + 1\<close>, where \<^verbatim>\<open>ii\<close> is the last loop index.
\<close>

definition convert_to_dict :: "ps_params \<Rightarrow> 'a tensor \<Rightarrow> error + 'a stats_dict" where
  "convert_to_dict p vec =
     (if last_dim vec \<noteq> length (representation_scales p)
      then Inl (WrongLength (length (representation_scales p)) (last_dim vec))
      else
        let W = spatial_corr_width p; S = n_scales p; K = n_orientations p;
            D = max (2 * K) 5;
            n0 = 6;
            keys = magnitude_means_keys p;
            n1 = n0 + ((length keys - 1) + 1);
            nn_acm = [W, W, S, K];
            n2 = n1 + prod_list nn_acm;
            n3 = n2 + (S + 1);
            n4 = n3 + (S + 1);
            nn_acr = [W, W, S + 1];
            n5 = n4 + prod_list nn_acr;
            n6 = (if use_true_correlations p then n5 + (S + 1) else n5);
            nn_com = [K, K, S + 1];
            n7 = n6 + prod_list nn_com;
            nn_csm = [K, K, S];
            n8 = n7 + prod_list nn_csm;
            nn_cor = [D, D, S + 1];
            n9 = n8 + prod_list nn_cor;
            nn_csr = [2 * K, D, S];
            n10 = n9 + prod_list nn_csr
        in
        bind_err (select_keys vec 0
                    [KStr ''mean'', KStr ''var'', KStr ''skew'', KStr ''kurtosis'',
                     KStr ''min'', KStr ''max'']) (\<lambda>pixel_statistics.
        bind_err (select_keys vec n0 keys) (\<lambda>magnitude_means.
        bind_err (take_block vec n1 nn_acm) (\<lambda>auto_correlation_magnitude.
        bind_err (take_block vec n4 nn_acr) (\<lambda>auto_correlation_reconstructed.
        bind_err (take_block vec n6 nn_com) (\<lambda>cross_orientation_correlation_magnitude.
        bind_err (take_block vec n7 nn_csm) (\<lambda>cross_scale_correlation_magnitude.
        bind_err (take_block vec n8 nn_cor) (\<lambda>cross_orientation_correlation_real.
        bind_err (take_block vec n9 nn_csr) (\<lambda>cross_scale_correlation_real.
        bind_err (select_last vec n10) (\<lambda>var_highpass_residual.
        Inr ([(''pixel_statistics'', Nested pixel_statistics),
              (''magnitude_means'', Nested magnitude_means),
              (''auto_correlation_magnitude'', Leaf auto_correlation_magnitude),
              (''skew_reconstructed'', Leaf (slice_last vec n2 (n2 + (S + 1)))),
              (''kurtosis_reconstructed'', Leaf (slice_last vec n3 (n3 + (S + 1)))),
              (''auto_correlation_reconstructed'', Leaf auto_correlation_reconstructed)]
             @ (if use_true_correlations p
                then [(''std_reconstructed'', Leaf (slice_last vec n5 (n5 + (S + 1))))]
                else [])
             @ [(''cross_orientation_correlation_magnitude'',
                   Leaf cross_orientation_correlation_magnitude),
                (''cross_scale_correlation_magnitude'', Leaf cross_scale_correlation_magnitude),
                (''cross_orientation_correlation_real'', Leaf cross_orientation_correlation_real),
                (''cross_scale_correlation_real'', Leaf cross_scale_correlation_real),
                (''var_highpass_residual'', Leaf var_highpass_residual)])))))))))))"

text \<open>
  \<^verbatim>\<open>PortillaSimoncelli.remove_scales\<close>: the positions whose label is in
  \<^verbatim>\<open>scales_to_keep\<close>, in increasing order, handed to \<^verbatim>\<open>index_select\<close>.
\<close>

definition kept_indices :: "ps_params \<Rightarrow> scale_label list \<Rightarrow> nat list" where
  "kept_indices p scales_to_keep =
     map fst (filter (\<lambda>(i, s). s \<in> set scales_to_keep)
                (zip [0..<length (representation_scales p)] (representation_scales p)))"

definition remove_scales :: "ps_params \<Rightarrow> 'a tensor \<Rightarrow> scale_label list \<Rightarrow> error + 'a tensor" where
  "remove_scales p representation_vector scales_to_keep =
     index_select_last representation_vector (kept_indices p scales_to_keep)"

section \<open>The shape of the vector that forward assembles\<close>

text \<open>
  \<^verbatim>\<open>forward\<close> is followed on shapes: every tensor is represented by its list of
  dimensions and every tensor operation by what it does to that list. The steerable
  pyramid is an external collaborator; its output shapes are the ones \<^verbatim>\<open>forward\<close>
  documents: the oriented bands have shape (batch, channel, n_scales, n_orientations,
  height, width), the two residuals and the image (batch, channel, height, width), and
  there are n_scales + 1 reconstructed images.
\<close>

type_synonym shape = "nat list"

text \<open>
  \<^verbatim>\<open>einops.pack(ts, 'b c *')\<close>: everything after the first two axes is flattened and
  the tensors are laid one after the other; every tensor must have the two named axes,
  of the same sizes in all of them.
\<close>

definition pack_bc :: "shape list \<Rightarrow> error + shape" where
  "pack_bc shs =
     (if shs \<noteq> [] \<and> list_all (\<lambda>sh. 2 \<le> length sh \<and> take 2 sh = take 2 (hd shs)) shs
      then Inr (take 2 (hd shs) @ [sum_list (map (\<lambda>sh. prod_list (drop 2 sh)) shs)])
      else Inl ShapeError)"

text \<open>
  Broadcasting of two shapes, as every elementwise operation of torch does it: the shapes
  are aligned at their last axes, a missing leading axis counts as 1, and two sizes are
  compatible when they are equal or one of them is 1. \<^verbatim>\<open>broadcast_rev\<close> works on the
  reversed shapes.
\<close>

fun broadcast_rev :: "shape \<Rightarrow> shape \<Rightarrow> error + shape" where
  "broadcast_rev [] ys = Inr ys"
| "broadcast_rev (x # xs) [] = Inr (x # xs)"
| "broadcast_rev (x # xs) (y # ys) =
     (if x = y \<or> y = 1 then bind_err (broadcast_rev xs ys) (\<lambda>r. Inr (x # r))
      else if x = 1 then bind_err (broadcast_rev xs ys) (\<lambda>r. Inr (y # r))
      else Inl ShapeError)"

definition broadcast_shapes :: "shape \<Rightarrow> shape \<Rightarrow> error + shape" where
  "broadcast_shapes xs ys = bind_err (broadcast_rev (rev xs) (rev ys)) (\<lambda>r. Inr (rev r))"

text \<open>\<^verbatim>\<open>torch.where(condition, input, other)\<close> broadcasts its three arguments.\<close>

definition where_shape :: "shape \<Rightarrow> shape \<Rightarrow> shape \<Rightarrow> error + shape" where
  "where_shape condition inp other =
     bind_err (broadcast_shapes condition inp) (\<lambda>sh. broadcast_shapes sh other)"

text \<open>
  Modelled from the spec: \<^verbatim>\<open>signal.autocorrelation\<close>, \<^verbatim>\<open>signal.shrink\<close> and
  \<^verbatim>\<open>signal.center_crop\<close> are called by \<^verbatim>\<open>_compute_autocorr\<close> but their module is not
  the one under src/. The autocorrelation has the spatial extent of its input, shrinking
  by a factor divides both spatial dimensions by it, and the crop returns a centred
  window of the requested width in both spatial dimensions.
\<close>

definition autocorrelation_shape :: "shape \<Rightarrow> shape" where
  "autocorrelation_shape sh = sh"

definition shrink_shape :: "shape \<Rightarrow> nat \<Rightarrow> shape" where
  "shrink_shape sh f = butlast (butlast sh) @ [last (butlast sh) div f, last sh div f]"

definition center_crop_shape :: "shape \<Rightarrow> nat \<Rightarrow> shape" where
  "center_crop_shape sh k = butlast (butlast sh) @ [k, k]"

text \<open>\<^verbatim>\<open>_compute_pixel_stats\<close>: six statistics are packed for every batch and channel.\<close>

definition compute_pixel_stats_shape :: "shape \<Rightarrow> error + shape" where
  "compute_pixel_stats_shape img =
     (let b = img ! 0; c = img ! 1;
          mean = [b, c, 1, 1]; var = [b, c]; skew = [b, c]; kurtosis = [b, c];
          img_min = [b, c]; img_max = [b, c]
      in pack_bc [mean, var, skew, kurtosis, img_min, img_max])"

text \<open>
  The magnitude means of section 2 of \<^verbatim>\<open>forward\<close>: the means of
  \<^verbatim>\<open>_compute_intermediate_representations\<close>, flattened from the third axis on, packed
  between the means of the two residuals.
\<close>

definition mag_means_shape :: "shape \<Rightarrow> shape \<Rightarrow> shape \<Rightarrow> error + shape" where
  "mag_means_shape pyr_coeffs highpass lowpass =
     (let magnitude_means = take 4 pyr_coeffs @ [1, 1];
          magnitude_means = take 2 magnitude_means @ [prod_list (drop 2 magnitude_means)]
      in pack_bc [take 2 highpass, magnitude_means, take 2 lowpass])"

text \<open>
  \<^verbatim>\<open>_compute_autocorr\<close> on a tensor (batch, channel, *, height, width) with one or two
  axes at *: the first result has shape (batch, channel, width, width, *), the second
  (batch, channel, *). The loop stacks one cropped tensor for every index of the third
  axis; all of them have the same shape.
\<close>

definition shrink_and_crop_shape :: "ps_params \<Rightarrow> shape \<Rightarrow> nat \<Rightarrow> shape" where
  "shrink_and_crop_shape p x i =
     center_crop_shape (if i \<noteq> 0 then shrink_shape x (2 ^ i) else x) (spatial_corr_width p)"

definition compute_autocorr_shape :: "ps_params \<Rightarrow> shape \<Rightarrow> error + shape \<times> shape" where
  "compute_autocorr_shape p coeffs_tensor =
     (if length coeffs_tensor \<noteq> 6 \<and> length coeffs_tensor \<noteq> 5 then Inl ShapeError
      else
        let acs = autocorrelation_shape coeffs_tensor;
            var = center_crop_shape acs 1;
            var = take 2 var @ [prod_list (drop 2 var)];
            slice = take 2 acs @ drop 3 acs;
            cropped = map (shrink_and_crop_shape p slice) [0..<acs ! 2]
        in if cropped = [] \<or> \<not> list_all (\<lambda>sh. sh = hd cropped) cropped then Inl ShapeError
           else
             let stacked = take 2 (hd cropped) @ [length cropped] @ drop 2 (hd cropped);
                 dims = take (length stacked - 4) (drop 2 stacked);
                 a12 = drop (length stacked - 2) stacked
             in Inr (take 2 stacked @ a12 @ dims, var))"

text \<open>
  \<^verbatim>\<open>_compute_cross_correlation\<close>: (b, c, s, o1, h, w) and (b, c, s, o2, h, w) give
  (b, c, o1, o2, s).
\<close>

definition compute_cross_correlation_shape :: "shape \<Rightarrow> shape \<Rightarrow> shape" where
  "compute_cross_correlation_shape coeffs_tensor coeffs_tensor_other =
     [coeffs_tensor ! 0, coeffs_tensor ! 1, coeffs_tensor ! 3, coeffs_tensor_other ! 3,
      coeffs_tensor ! 2]"

text \<open>
  \<^verbatim>\<open>torch.cat([x, torch.zeros_like(x[..., -1:])], -1)\<close>: the slice holds one entry of the
  last axis, none if the axis is empty.
\<close>

definition append_zero_scale_shape :: "shape \<Rightarrow> shape" where
  "append_zero_scale_shape x = butlast x @ [last x + min 1 (last x)]"

text \<open>\<^verbatim>\<open>x[:, :, :-1]\<close> and \<^verbatim>\<open>x[:, :, -1]\<close> on the scale axis.\<close>

definition drop_last_scale_shape :: "shape \<Rightarrow> shape" where
  "drop_last_scale_shape x = take 2 x @ [x ! 2 - 1] @ drop 3 x"

definition last_scale_shape :: "shape \<Rightarrow> shape" where
  "last_scale_shape x = take 2 x @ drop 3 x"

text \<open>
  \<^verbatim>\<open>_create_lowpass_corr_tensor\<close>: the shrunk lowpass is flattened to one column; five
  columns are stacked.
\<close>

definition create_lowpass_corr_tensor_shape :: "ps_params \<Rightarrow> shape \<Rightarrow> shape" where
  "create_lowpass_corr_tensor_shape p lowpass =
     (let downsampled_lowpass =
            (if n_scales p = 1 then lowpass else shrink_shape lowpass (2 ^ (n_scales p - 1)));
          column = take 2 downsampled_lowpass @ [prod_list (drop 2 downsampled_lowpass)]
      in column @ [5])"

text \<open>
  \<^verbatim>\<open>compute_crosscorrelation\<close>: \<^verbatim>\<open>ch1.transpose(-2, -1) @ ch2\<close> multiplies an (n, k)
  by an (n, m) matrix for every batch and channel; the row counts must agree.
\<close>

definition compute_crosscorrelation_shape :: "shape \<Rightarrow> shape \<Rightarrow> error + shape" where
  "compute_crosscorrelation_shape ch1 ch2 =
     (if length ch1 = 4 \<and> length ch2 = 4 \<and> ch1 ! 2 = ch2 ! 2
      then Inr [ch1 ! 0, ch1 ! 1, ch1 ! 3, ch2 ! 3]
      else Inl ShapeError)"

text \<open>
  \<^verbatim>\<open>nn.functional.pad\<close> with zeros at the end of the last axes; the amounts are listed
  from the last axis backwards.
\<close>

fun pad_end_shape :: "shape \<Rightarrow> nat list \<Rightarrow> shape" where
  "pad_end_shape sh [] = sh"
| "pad_end_shape sh (k # ks) = pad_end_shape (butlast sh) ks @ [last sh + k]"

text \<open>\<^verbatim>\<open>_concat_lowpass_to_cross_ori_real\<close>.\<close>

definition concat_lowpass_to_cross_ori_real_shape ::
    "ps_params \<Rightarrow> shape \<Rightarrow> shape \<Rightarrow> error + shape" where
  "concat_lowpass_to_cross_ori_real_shape p cross_ori_corr_real lowpass =
     (let upsampled_lowpass = create_lowpass_corr_tensor_shape p lowpass
      in bind_err (compute_crosscorrelation_shape upsampled_lowpass upsampled_lowpass)
           (\<lambda>upsampled_lowpass_corr.
              let dim = max (2 * n_orientations p) 5;
                  cross_ori_corr_real =
                    pad_end_shape cross_ori_corr_real
                      [0, dim - n_orientations p, dim - n_orientations p];
                  upsampled_lowpass_corr = pad_end_shape upsampled_lowpass_corr [dim - 5, dim - 5];
                  unsqueezed = upsampled_lowpass_corr @ [1]
              in if butlast cross_ori_corr_real = butlast unsqueezed
                 then Inr (butlast cross_ori_corr_real @ [last cross_ori_corr_real + 1])
                 else Inl ShapeError))"

text \<open>
  \<^verbatim>\<open>_double_phase_pyr_coeffs\<close>: the finest scale is left out; the separate real and
  imaginary parts double the orientation axis.
\<close>

definition double_phase_pyr_coeffs_shape :: "shape \<Rightarrow> shape \<times> shape" where
  "double_phase_pyr_coeffs_shape pyr_coeffs =
     (let doubled_phase = take 2 pyr_coeffs @ [pyr_coeffs ! 2 - 1] @ drop 3 pyr_coeffs
      in (doubled_phase,
          take 3 doubled_phase @ [doubled_phase ! 3 + doubled_phase ! 3] @ drop 4 doubled_phase))"

text \<open>
  \<^verbatim>\<open>_concat_lowpass_to_cross_scale_real\<close>. With one scale the first argument is
  \<^verbatim>\<open>torch.empty((0))\<close>, of shape (0), which \<^verbatim>\<open>torch.cat\<close> skips.
\<close>

definition concat_lowpass_to_cross_scale_real_shape ::
    "ps_params \<Rightarrow> shape \<Rightarrow> shape \<Rightarrow> shape \<Rightarrow> error + shape" where
  "concat_lowpass_to_cross_scale_real_shape p cross_scale_corr_real lowpass
       real_pyr_coeffs_last_scale =
     (let real_pyr_coeffs_last_scale =
            (if n_scales p \<noteq> 1
             then shrink_shape real_pyr_coeffs_last_scale (2 ^ (n_scales p - 1))
             else real_pyr_coeffs_last_scale);
          orientation_bands =
            take 2 real_pyr_coeffs_last_scale
            @ [real_pyr_coeffs_last_scale ! 4 * real_pyr_coeffs_last_scale ! 3,
               real_pyr_coeffs_last_scale ! 2];
          upsampled_lowpass = create_lowpass_corr_tensor_shape p lowpass
      in bind_err (compute_crosscorrelation_shape orientation_bands upsampled_lowpass)
           (\<lambda>upsampled_lowpass_corr.
              let dim = max (2 * n_orientations p) 5;
                  cross_scale_corr_real =
                    (if prod_list cross_scale_corr_real \<noteq> 0
                     then pad_end_shape cross_scale_corr_real
                            [0, dim - 2 * n_orientations p,
                             2 * n_orientations p - n_orientations p]
                     else cross_scale_corr_real);
                  upsampled_lowpass_corr =
                    pad_end_shape upsampled_lowpass_corr
                      [dim - 5, 2 * n_orientations p - n_orientations p];
                  unsqueezed = upsampled_lowpass_corr @ [1]
              in if cross_scale_corr_real = [0] then Inr unsqueezed
                 else if butlast cross_scale_corr_real = butlast unsqueezed
                 then Inr (butlast cross_scale_corr_real @ [last cross_scale_corr_real + 1])
                 else Inl ShapeError))"

text \<open>
  \<^verbatim>\<open>_compute_skew_kurtosis_recon\<close>. \<^verbatim>\<open>stats.skew\<close> and \<^verbatim>\<open>stats.kurtosis\<close> reduce the
  two spatial axes and divide by a power of \<^verbatim>\<open>var_recon\<close>; the comparison
  \<^verbatim>\<open>var_recon / img_var > 1e-6\<close> broadcasts \<^verbatim>\<open>var_recon\<close> against \<^verbatim>\<open>img_var\<close>, and
  \<^verbatim>\<open>torch.where\<close> broadcasts the comparison against the moments and their defaults.
\<close>

definition compute_skew_kurtosis_recon_shape ::
    "shape \<Rightarrow> shape \<Rightarrow> shape \<Rightarrow> error + shape \<times> shape" where
  "compute_skew_kurtosis_recon_shape reconstructed_images var_recon img_var =
     bind_err (broadcast_shapes (butlast (butlast reconstructed_images)) var_recon)
       (\<lambda>skew_recon.
     bind_err (broadcast_shapes (butlast (butlast reconstructed_images)) var_recon)
       (\<lambda>kurtosis_recon.
     let skew_default = skew_recon;
         kurtosis_default = kurtosis_recon
     in
     bind_err (broadcast_shapes var_recon img_var) (\<lambda>unstable_locs.
     bind_err (where_shape unstable_locs skew_recon skew_default) (\<lambda>skew_recon.
     bind_err (where_shape unstable_locs kurtosis_recon kurtosis_default) (\<lambda>kurtosis_recon.
     Inr (skew_recon, kurtosis_recon))))))"

text \<open>
  \<^verbatim>\<open>forward\<close> with \<^verbatim>\<open>scales=None\<close>, on the shape of the image. \<^verbatim>\<open>validate_input\<close>
  accepts 4d images only. \<^verbatim>\<open>pixel_stats[..., 1]\<close>, the pixel variance handed to
  \<^verbatim>\<open>_compute_skew_kurtosis_recon\<close>, has the shape of \<^verbatim>\<open>pixel_stats\<close> without its last
  axis.
\<close>

definition forward_shape :: "ps_params \<Rightarrow> shape \<Rightarrow> error + shape" where
  "forward_shape p img =
     (if length img \<noteq> 4 then Inl ShapeError
      else
        let b = img ! 0; c = img ! 1; h = img ! 2; w = img ! 3;
            pyr_coeffs = [b, c, n_scales p, n_orientations p, h, w];
            highpass = [b, c, h, w];
            lowpass = [b, c, h, w]
        in
        bind_err (compute_pixel_stats_shape img) (\<lambda>pixel_stats.
        let mag_pyr_coeffs = pyr_coeffs;
            real_pyr_coeffs = pyr_coeffs
        in
        bind_err (mag_means_shape pyr_coeffs highpass lowpass) (\<lambda>mag_means.
        let reconstructed_images = [b, c, n_scales p + 1, h, w]
        in
        bind_err (compute_autocorr_shape p mag_pyr_coeffs) (\<lambda>(autocorr_mags, _).
        bind_err (compute_autocorr_shape p reconstructed_images) (\<lambda>(autocorr_recon, var_recon).
        bind_err (compute_skew_kurtosis_recon_shape reconstructed_images var_recon
                    (butlast pixel_stats)) (\<lambda>(skew_recon, kurtosis_recon).
        let std_recon = (if use_true_correlations p then var_recon else [0]);
            cross_ori_corr_mags =
              append_zero_scale_shape
                (compute_cross_correlation_shape mag_pyr_coeffs mag_pyr_coeffs);
            cross_ori_corr_real = compute_cross_correlation_shape real_pyr_coeffs real_pyr_coeffs
        in
        bind_err (concat_lowpass_to_cross_ori_real_shape p cross_ori_corr_real lowpass)
          (\<lambda>cross_ori_corr_real.
        let (cross_scale_corr_mags, cross_scale_corr_real) =
              (if n_scales p \<noteq> 1
               then
                 let (phase_doubled_mags, phase_doubled_sep) =
                       double_phase_pyr_coeffs_shape pyr_coeffs
                 in (append_zero_scale_shape
                       (compute_cross_correlation_shape
                          (drop_last_scale_shape mag_pyr_coeffs) phase_doubled_mags),
                     compute_cross_correlation_shape
                       (drop_last_scale_shape real_pyr_coeffs) phase_doubled_sep)
               else (butlast cross_ori_corr_mags @ [min 1 (last cross_ori_corr_mags)], [0]))
        in
        bind_err (concat_lowpass_to_cross_scale_real_shape p cross_scale_corr_real lowpass
                    (last_scale_shape real_pyr_coeffs)) (\<lambda>cross_scale_corr_real.
        let var_highpass_residual = [b, c];
            all_stats =
              [pixel_stats, mag_means, autocorr_mags, skew_recon, kurtosis_recon, autocorr_recon]
              @ (if use_true_correlations p then [std_recon] else [])
              @ [cross_ori_corr_mags, cross_scale_corr_mags, cross_ori_corr_real,
                 cross_scale_corr_real, var_highpass_residual]
        in pack_bc all_stats))))))))"

section \<open>Moment statistics\<close>

text \<open>
  An image or a band is a matrix of reals, given as the list of its rows; the pixel
  statistics are modelled on one batch and channel slice. Arithmetic is over the reals; where the floating-point code would produce NaN
  (an empty reduction, a division of zero by zero) HOL's total functions return a number,
  and the theorems below exclude those inputs.
\<close>

type_synonym matrix = "real list list"

text \<open>\<^verbatim>\<open>torch.mean\<close> over the two spatial axes is the mean of the flattened slice.\<close>

definition mean_list :: "real list \<Rightarrow> real" where
  "mean_list xs = sum_list xs / real (length xs)"

text \<open>
  \<^verbatim>\<open>torch.var(image, dim=(-2, -1))\<close> with its default arguments applies Bessel's
  correction: the sum of squared deviations is divided by N - 1.
\<close>

definition torch_var :: "real list \<Rightarrow> real" where
  "torch_var xs = (\<Sum>x\<leftarrow>xs. (x - mean_list xs)\<^sup>2) / (real (length xs) - 1)"

text \<open>\<^verbatim>\<open>torch.std\<close>, also with Bessel's correction by default.\<close>

definition torch_std :: "real list \<Rightarrow> real" where
  "torch_std xs = sqrt (torch_var xs)"

text \<open>
  Modelled from the spec: \<^verbatim>\<open>stats.skew\<close> and \<^verbatim>\<open>stats.kurtosis\<close> are imported from
  \<^verbatim>\<open>tools.stats\<close>, which is not under src/. The spec gives skew as the third central
  moment over the cube of the standard deviation and kurtosis as the fourth central
  moment over its fourth power, where the mean and the variance may be supplied by the
  caller.
\<close>

definition stats_skew :: "real list \<Rightarrow> real \<Rightarrow> real \<Rightarrow> real" where
  "stats_skew xs mean var = mean_list (map (\<lambda>x. (x - mean) ^ 3) xs) / (sqrt var) ^ 3"

definition stats_kurtosis :: "real list \<Rightarrow> real \<Rightarrow> real \<Rightarrow> real" where
  "stats_kurtosis xs mean var = mean_list (map (\<lambda>x. (x - mean) ^ 4) xs) / (sqrt var) ^ 4"

text \<open>\<^verbatim>\<open>_compute_pixel_stats\<close> on one slice of the image.\<close>

definition compute_pixel_stats :: "matrix \<Rightarrow> real list" where
  "compute_pixel_stats img =
     (let xs = concat img;
          mean = mean_list xs;
          var = torch_var xs;
          skew = stats_skew xs mean var;
          kurtosis = stats_kurtosis xs mean var;
          img_min = Min (set xs);
          img_max = Max (set xs)
      in [mean, var, skew, kurtosis, img_min, img_max])"

text \<open>
  The statistic blocks that \<^verbatim>\<open>forward\<close> computes from the pyramid, each flattened for
  one slice. The pyramid is an external collaborator, so these blocks are a parameter of
  the model of \<^verbatim>\<open>forward\<close>.
\<close>

record pyramid_stats =
  mag_means :: "real list"
  autocorr_mags :: "real list"
  skew_recon :: "real list"
  kurtosis_recon :: "real list"
  autocorr_recon :: "real list"
  std_recon :: "real list"
  cross_ori_corr_mags :: "real list"
  cross_scale_corr_mags :: "real list"
  cross_ori_corr_real :: "real list"
  cross_scale_corr_real :: "real list"
  var_highpass_residual :: "real list"

text \<open>
  The last step of \<^verbatim>\<open>forward\<close> (with \<^verbatim>\<open>scales=None\<close>) on one slice: the list
  \<^verbatim>\<open>all_stats\<close> is packed in this order.
\<close>

definition forward_slice :: "ps_params \<Rightarrow> matrix \<Rightarrow> pyramid_stats \<Rightarrow> real list" where
  "forward_slice p img st =
     (let pixel_stats = compute_pixel_stats img;
          all_stats =
            [pixel_stats, mag_means st, autocorr_mags st, skew_recon st, kurtosis_recon st,
             autocorr_recon st]
            @ (if use_true_correlations p then [std_recon st] else [])
            @ [cross_ori_corr_mags st, cross_scale_corr_mags st, cross_ori_corr_real st,
               cross_scale_corr_real st, var_highpass_residual st]
      in concat all_stats)"

text \<open>
  The variance as claim C3 words it: the population variance, the sum of squared
  deviations divided by N.
\<close>

definition population_variance :: "real list \<Rightarrow> real" where
  "population_variance xs = (\<Sum>x\<leftarrow>xs. (x - mean_list xs)\<^sup>2) / real (length xs)"

text \<open>
  The comparison \<^verbatim>\<open>var_recon / img_var > 1e-6\<close> of \<^verbatim>\<open>_compute_skew_kurtosis_recon\<close>.
  In floating point a positive number over zero is infinite and exceeds the threshold,
  while zero over zero is NaN and a negative number over zero is minus infinity, which
  do not.
\<close>

definition ratio_exceeds :: "real \<Rightarrow> real \<Rightarrow> real \<Rightarrow> bool" where
  "ratio_exceeds v img_var t = (if img_var = 0 then 0 < v else t < v / img_var)"

text \<open>
  \<^verbatim>\<open>_compute_skew_kurtosis_recon\<close> works on whole tensors, given as nested lists:
  \<^verbatim>\<open>reconstructed_images\<close> holds for every batch and channel the n_scales + 1
  reconstructed images, \<^verbatim>\<open>var_recon\<close> of shape (batch, channel, n_scales + 1) their
  variances, and \<^verbatim>\<open>img_var\<close> of shape (batch, channel) the pixel variances.

  The division \<^verbatim>\<open>var_recon / img_var\<close> broadcasts a tensor with three axes against one
  with two. Torch aligns the shapes at their last axes, so the channel axis of
  \<^verbatim>\<open>img_var\<close> meets the scale axis of \<^verbatim>\<open>var_recon\<close> and the batch axis of \<^verbatim>\<open>img_var\<close>
  meets its channel axis; two sizes are compatible when they are equal or one of them is
  1, and an axis of size 1 is read at index 0. The tensors are assumed regular and not
  empty, so that the sizes can be read off the first entries.
\<close>

definition broadcastable :: "nat \<Rightarrow> nat \<Rightarrow> bool" where
  "broadcastable m n \<longleftrightarrow> m = n \<or> m = 1 \<or> n = 1"

definition bcast_index :: "nat \<Rightarrow> nat \<Rightarrow> nat" where
  "bcast_index n i = (if n = 1 then 0 else i)"

definition ratio_exceeds_broadcast ::
    "real list list list \<Rightarrow> real list list \<Rightarrow> real \<Rightarrow> error + bool list list list" where
  "ratio_exceeds_broadcast var_recon img_var t =
     (let b = length var_recon; c = length (hd var_recon); n = length (hd (hd var_recon));
          b2 = length img_var; c2 = length (hd img_var)
      in if broadcastable c b2 \<and> broadcastable n c2
         then Inr (map (\<lambda>i. map (\<lambda>j. map (\<lambda>k.
                     ratio_exceeds (var_recon ! i ! bcast_index c j ! bcast_index n k)
                       (img_var ! bcast_index b2 j ! bcast_index c2 k) t)
                   [0..<max n c2]) [0..<max c b2]) [0..<b])
         else Inl ShapeError)"

text \<open>
  \<^verbatim>\<open>torch.where(condition, input, other)\<close> for a condition of shape (b, c', n') and two
  tensors of shape (b, c, n) where c is c' or 1 and n is n' or 1, which is what the
  broadcast above leaves: the result has the shape of the condition.
\<close>

definition where3 :: "bool list list list \<Rightarrow> 'a list list list \<Rightarrow> 'a list list list
    \<Rightarrow> 'a list list list" where
  "where3 condition inp other =
     (let c = length (hd inp); n = length (hd (hd inp))
      in map (\<lambda>i. map (\<lambda>j. map (\<lambda>k.
               if condition ! i ! j ! k
               then inp ! i ! bcast_index c j ! bcast_index n k
               else other ! i ! bcast_index c j ! bcast_index n k)
             [0..<length (condition ! i ! j)]) [0..<length (condition ! i)])
           [0..<length condition])"

definition compute_skew_kurtosis_recon ::
    "matrix list list list \<Rightarrow> real list list list \<Rightarrow> real list list
     \<Rightarrow> error + real list list list \<times> real list list list" where
  "compute_skew_kurtosis_recon reconstructed_images var_recon img_var =
     (let skew_recon =
            map2 (map2 (map2 (\<lambda>im v. stats_skew (concat im) 0 v))) reconstructed_images var_recon;
          kurtosis_recon =
            map2 (map2 (map2 (\<lambda>im v. stats_kurtosis (concat im) 0 v)))
              reconstructed_images var_recon;
          skew_default = map (map (map (\<lambda>_. 0))) skew_recon;
          kurtosis_default = map (map (map (\<lambda>_. 3 * 1))) kurtosis_recon
      in bind_err (ratio_exceeds_broadcast var_recon img_var (1 / 10 ^ 6)) (\<lambda>unstable_locs.
         let skew_recon = where3 unstable_locs skew_recon skew_default;
             kurtosis_recon = where3 unstable_locs kurtosis_recon kurtosis_default
         in Inr (skew_recon, kurtosis_recon)))"

text \<open>
  The skew and the kurtosis of a band as claim C6 words them: central moments over powers
  of the band's own standard deviation.
\<close>

definition central_skew :: "real list \<Rightarrow> real" where
  "central_skew xs =
     mean_list (map (\<lambda>x. (x - mean_list xs) ^ 3) xs) / (sqrt (population_variance xs)) ^ 3"

definition central_kurtosis :: "real list \<Rightarrow> real" where
  "central_kurtosis xs =
     mean_list (map (\<lambda>x. (x - mean_list xs) ^ 4) xs) / (sqrt (population_variance xs)) ^ 4"

section \<open>Cross-correlations of one batch and channel slice\<close>

text \<open>
  One slice of a tensor of shape (batch, channel, scale, orientation, height, width): for
  every scale the list of its orientation bands, each a matrix.
\<close>

type_synonym bands = "matrix list list"

text \<open>
  The product of the last two dimensions of \<^verbatim>\<open>coeffs_tensor\<close> (\<^verbatim>\<open>torch.mul\<close> of
  \<^verbatim>\<open>shape[-2:]\<close>): height times width, read off the first band.
\<close>

definition num_spatial :: "bands \<Rightarrow> nat" where
  "num_spatial t =
     (case t of [] \<Rightarrow> 0
      | sc # _ \<Rightarrow> (case sc of [] \<Rightarrow> 0
          | band # _ \<Rightarrow> length band * (case band of [] \<Rightarrow> 0 | r # _ \<Rightarrow> length r)))"

text \<open>The sum over height and width of the products of two bands.\<close>

definition spatial_inner :: "matrix \<Rightarrow> matrix \<Rightarrow> real" where
  "spatial_inner x y = (\<Sum>(u, v)\<leftarrow>zip (concat x) (concat y). u * v)"

text \<open>\<^verbatim>\<open>einops.einsum(a, b, 'b c s o1 h w, b c s o2 h w -> b c s o1 o2')\<close> on one slice.\<close>

definition einsum_cross :: "bands \<Rightarrow> bands \<Rightarrow> real list list list" where
  "einsum_cross a b = map2 (\<lambda>as bs. map (\<lambda>x. map (\<lambda>y. spatial_inner x y) bs) as) a b"

text \<open>
  \<^verbatim>\<open>torch.std(t, (-3, -2, -1), keepdim=True)\<close> on one scale of one slice: the three
  reduced axes are orientation, height and width, so there is one standard deviation
  for the whole scale.
\<close>

definition std_scale :: "matrix list \<Rightarrow> real" where
  "std_scale as = torch_std (concat (map concat as))"

text \<open>\<^verbatim>\<open>einops.rearrange(x, 'b c s o1 o2 -> b c o1 o2 s')\<close> on one slice.\<close>

definition rearrange_s_last :: "real list list list \<Rightarrow> real list list list" where
  "rearrange_s_last x =
     map (\<lambda>o1. map (\<lambda>o2. map (\<lambda>s. x ! s ! o1 ! o2) [0..<length x])
                  [0..<length (hd (hd x))])
       [0..<length (hd x)]"

text \<open>\<^verbatim>\<open>_compute_cross_correlation\<close> on one slice.\<close>

definition compute_cross_correlation :: "ps_params \<Rightarrow> bands \<Rightarrow> bands \<Rightarrow> real list list list" where
  "compute_cross_correlation p coeffs_tensor coeffs_tensor_other =
     (let cross_ori_corr = einsum_cross coeffs_tensor coeffs_tensor_other;
          cross_ori_corr =
            map (map (map (\<lambda>v. v / real (num_spatial coeffs_tensor)))) cross_ori_corr;
          cross_ori_corr =
            (if use_true_correlations p
             then map (\<lambda>(cs, as, bs). map (map (\<lambda>v. v / (std_scale as * std_scale bs))) cs)
                    (zip cross_ori_corr (zip coeffs_tensor coeffs_tensor_other))
             else cross_ori_corr)
      in rearrange_s_last cross_ori_corr)"

text \<open>
  The entry for one pair of orientations as claim C4 words the true-correlation mode: the
  covariance divided by the product of the standard deviations of the two bands.
\<close>

definition band_normalised_entry :: "bands \<Rightarrow> bands \<Rightarrow> nat \<Rightarrow> nat \<Rightarrow> nat \<Rightarrow> real" where
  "band_normalised_entry a b s o1 o2 =
     spatial_inner (a ! s ! o1) (b ! s ! o2) / real (num_spatial a)
     / (torch_std (concat (a ! s ! o1)) * torch_std (concat (b ! s ! o2)))"

text \<open>All scales hold the same number of orientation bands.\<close>

definition regular_bands :: "bands \<Rightarrow> nat \<Rightarrow> nat \<Rightarrow> bool" where
  "regular_bands t n_sc n_ori = (length t = n_sc \<and> list_all (\<lambda>sc. length sc = n_ori) t)"

section \<open>Doubling the phase of the pyramid coefficients\<close>

text \<open>
  Modelled from the spec: \<^verbatim>\<open>signal.modulate_phase\<close> is called by
  \<^verbatim>\<open>_double_phase_pyr_coeffs\<close> but is not defined in the signal module under src/. The
  spec describes it as keeping the modulus of a coefficient and multiplying its phase
  angle by the factor.
\<close>

definition modulate_phase :: "complex \<Rightarrow> real \<Rightarrow> complex" where
  "modulate_phase z phase_factor = of_real (cmod z) * cis (phase_factor * Arg z)"

text \<open>
  One slice of the complex pyramid coefficients: for every scale the list of its
  orientation bands, each a matrix of complex numbers.
\<close>

type_synonym cbands = "complex list list list list"

text \<open>The magnitude of a band minus its mean over height and width.\<close>

definition demeaned_magnitude :: "complex list list \<Rightarrow> matrix" where
  "demeaned_magnitude band =
     (let mags = map (map cmod) band
      in map (map (\<lambda>x. x - mean_list (concat mags))) mags)"

text \<open>
  \<^verbatim>\<open>_double_phase_pyr_coeffs\<close> on one slice. \<^verbatim>\<open>pyr_coeffs[:, :, 1:]\<close> leaves out the
  first scale; \<^verbatim>\<open>einops.pack\<close> with the pattern \<^verbatim>\<open>'b c s * h w'\<close> lays the negated real
  parts and the imaginary parts one after the other along the orientation axis.
\<close>

definition double_phase_pyr_coeffs :: "cbands \<Rightarrow> bands \<times> bands" where
  "double_phase_pyr_coeffs pyr_coeffs =
     (let doubled_phase = map (map (map (map (\<lambda>z. modulate_phase z 2)))) (drop 1 pyr_coeffs);
          doubled_phase_mags = map (map demeaned_magnitude) doubled_phase;
          doubled_phase_separate =
            map (\<lambda>sc. map (map (map (\<lambda>z. - Re z))) sc @ map (map (map Im)) sc) doubled_phase
      in (doubled_phase_mags, doubled_phase_separate))"

text \<open>All scales hold the same number of orientation bands.\<close>

definition regular_cbands :: "cbands \<Rightarrow> nat \<Rightarrow> nat \<Rightarrow> bool" where
  "regular_cbands t n_sc n_ori = (length t = n_sc \<and> list_all (\<lambda>sc. length sc = n_ori) t)"

section \<open>Pooling with windows\<close>

text \<open>
  \<^verbatim>\<open>PoolingWindows.window\<close> and \<^verbatim>\<open>PoolingWindows.pool\<close> for a tensor input and windows
  of three dimensions (window, height, width). The input of \<^verbatim>\<open>window\<close> is indexed by
  batch and channel, the input of \<^verbatim>\<open>pool\<close> by batch, channel and window. For a
  dictionary input the source applies the same computation to every value.
\<close>

definition window :: "matrix list \<Rightarrow> matrix list list \<Rightarrow> matrix list list list" where
  "window windows x = map (map (\<lambda>im. map (\<lambda>w. map2 (map2 (\<lambda>u v. u * v)) im w) windows)) x"

text \<open>\<^verbatim>\<open>divisor = self.windows[idx].sum((-1, -2)); divisor[divisor == 0] = 1\<close>.\<close>

definition pool_divisor :: "matrix list \<Rightarrow> real list" where
  "pool_divisor windows =
     (let divisor = map (\<lambda>w. sum_list (concat w)) windows
      in map (\<lambda>d. if d = 0 then 1 else d) divisor)"

definition pool :: "matrix list \<Rightarrow> matrix list list list \<Rightarrow> real list list list" where
  "pool windows windowed_x =
     map (map (\<lambda>xs. map2 (\<lambda>xw d. sum_list (concat xw) / d) xs (pool_divisor windows)))
       windowed_x"

section \<open>Stitching the residual lowpass onto the real cross-orientation correlations\<close>

text \<open>
  These functions work on whole tensors, since \<^verbatim>\<open>compute_crosscorrelation\<close> normalises
  with a standard deviation taken over the whole tensor: a tensor of shape (batch, channel,
  rows, columns) is a list of lists of matrices.

  \<^verbatim>\<open>signal.shrink\<close> is not defined in the signal module under src/, so the function that
  shrinks one image by a factor is a parameter of the model.
\<close>

text \<open>\<^verbatim>\<open>x.roll(1, dim)\<close> and \<^verbatim>\<open>x.roll(-1, dim)\<close> along the outer axis of a list: a cyclic shift.\<close>

definition roll_fwd :: "'a list \<Rightarrow> 'a list" where
  "roll_fwd xs = (if xs = [] then [] else last xs # butlast xs)"

definition roll_back :: "'a list \<Rightarrow> 'a list" where
  "roll_back xs = (if xs = [] then [] else tl xs @ [hd xs])"

text \<open>
  The local variable \<^verbatim>\<open>downsampled_lowpass\<close> of \<^verbatim>\<open>_create_lowpass_corr_tensor\<close> after
  its three assignments, for one batch and channel: the lowpass shrunk by
  \<^verbatim>\<open>2 ** (n_scales - 1)\<close> (left as it is for one scale), multiplied by
  \<^verbatim>\<open>2 ** (n_scales - 2)\<close> (one half for one scale) and transposed.
\<close>

definition downsampled_lowpass :: "(matrix \<Rightarrow> nat \<Rightarrow> matrix) \<Rightarrow> ps_params \<Rightarrow> matrix \<Rightarrow> matrix" where
  "downsampled_lowpass shrink p lowpass =
     (let d = (if n_scales p = 1 then lowpass else shrink lowpass (2 ^ (n_scales p - 1)));
          d = map (map (\<lambda>x. x * 2 powi (int (n_scales p) - 2))) d
      in transpose d)"






text \<open>
  \<^verbatim>\<open>nn.functional.pad(x, ..., 'constant', 0)\<close> at the end of the two outer axes of a list
  of lists: \<^verbatim>\<open>c\<close> entries \<^verbatim>\<open>z\<close> after every row, then \<^verbatim>\<open>r\<close> rows of \<^verbatim>\<open>z\<close>.
\<close>

definition pad_end :: "'a \<Rightarrow> nat \<Rightarrow> nat \<Rightarrow> 'a list list \<Rightarrow> 'a list list" where
  "pad_end z r c m =
     map (\<lambda>row. row @ replicate c z) m
     @ replicate r (replicate ((if m = [] then 0 else length (hd m)) + c) z)"








section \<open>Auxiliary notions for the proofs\<close>

text \<open>
  The length of the representation vector as a closed formula: the sizes of the blocks in
  the order in which \<^verbatim>\<open>forward\<close> packs them.
\<close>

definition total_length :: "ps_params \<Rightarrow> nat" where
  "total_length p =
     (let W = spatial_corr_width p; S = n_scales p; K = n_orientations p; D = ori_crossed p
      in 6 + (K * S + 2) + W\<^sup>2 * (K * S) + (S + 1) + (S + 1) + W\<^sup>2 * (S + 1)
         + (if use_true_correlations p then S + 1 else 0)
         + K\<^sup>2 * (S + 1) + K\<^sup>2 * S + D\<^sup>2 * (S + 1) + 2 * K * D * S + 1)"

text \<open>A tensor obtained from \<^verbatim>\<open>vec\<close> by rewriting every row, with a given trailing shape.\<close>

definition derive :: "nat list \<Rightarrow> ('a list \<Rightarrow> 'a list) \<Rightarrow> 'a tensor \<Rightarrow> 'a tensor" where
  "derive sh g vec = \<lparr>trailing = sh, body = map (map g) (body vec)\<rparr>"


text \<open>The keys of the dictionary that \<^verbatim>\<open>convert_to_dict\<close> builds, in insertion order.\<close>

definition dict_keys :: "ps_params \<Rightarrow> string list" where
  "dict_keys p =
     [''pixel_statistics'', ''magnitude_means'', ''auto_correlation_magnitude'',
      ''skew_reconstructed'', ''kurtosis_reconstructed'', ''auto_correlation_reconstructed'']
     @ (if use_true_correlations p then [''std_reconstructed''] else [])
     @ [''cross_orientation_correlation_magnitude'', ''cross_scale_correlation_magnitude'',
        ''cross_orientation_correlation_real'', ''cross_scale_correlation_real'',
        ''var_highpass_residual'']"


section \<open>The labels and the length of the representation\<close>

lemma length_list_times [simp]: "length (list_times k xs) = k * length xs"
  by (induction k) (simp_all add: list_times_def)

lemma length_concat_replicate [simp]:
  "length (concat (map (replicate n \<circ> f) xs)) = n * length xs"
  by (induction xs) simp_all

lemma length_representation_scales:
  "length (representation_scales p) = total_length p"
  by (simp add: representation_scales_def get_representation_scales_def total_length_def Let_def)

lemma all_ok_Inr: "all_ok (map (\<lambda>x. Inr (g x)) xs) = Inr (map g xs)"
  by (induction xs) simp_all

lemma select_last_derive:
  "i < last_dim vec \<Longrightarrow> select_last vec i = Inr (derive [] (\<lambda>r. [r ! i]) vec)"
  by (simp add: select_last_def derive_def)

lemma slice_last_derive:
  "trailing vec = [L] \<Longrightarrow> a + n \<le> L \<Longrightarrow>
   slice_last vec a (a + n) = derive [n] (\<lambda>r. take n (drop a r)) vec"
  by (simp add: slice_last_def derive_def last_dim_def)

lemma take_block_derive:
  "trailing vec = [L] \<Longrightarrow> a + prod_list nn \<le> L \<Longrightarrow>
   take_block vec a nn = Inr (derive nn (\<lambda>r. take (prod_list nn) (drop a r)) vec)"
  by (simp add: take_block_def slice_last_derive unflatten_last_def derive_def last_dim_def)

lemma select_keys_derive:
  assumes "a + length keys \<le> last_dim vec"
  shows "select_keys vec a keys =
         Inr (map (\<lambda>(ii, k). (k, derive [] (\<lambda>r. [r ! (a + ii)]) vec)) (zip [0..<length keys] keys))"
proof -
  have "map (\<lambda>(ii, k). bind_err (select_last vec (a + ii)) (\<lambda>t. Inr (k, t))) (zip [0..<length keys] keys)
      = map (\<lambda>x. Inr ((\<lambda>(ii, k). (k, derive [] (\<lambda>r. [r ! (a + ii)]) vec)) x)) (zip [0..<length keys] keys)"
  proof (rule map_cong[OF refl])
    fix x assume "x \<in> set (zip [0..<length keys] keys)"
    then have "fst x < length keys" by (metis set_zip_leftD prod.collapse atLeastLessThan_iff set_upt)
    with assms have "a + fst x < last_dim vec" by simp
    then show "(case x of (ii, k) \<Rightarrow> bind_err (select_last vec (a + ii)) (\<lambda>t. Inr (k, t)))
             = Inr (case x of (ii, k) \<Rightarrow> (k, derive [] (\<lambda>r. [r ! (a + ii)]) vec))"
      by (cases x) (simp add: select_last_derive bind_err_def)
  qed
  then show ?thesis unfolding select_keys_def by (simp only: all_ok_Inr)
qed

lemma map_upt_nth: "map (\<lambda>i. f (xs ! i)) [0..<length xs] = map f xs"
  by (rule nth_equalityI) simp_all

lemma combine_rows_derive:
  assumes ne: "ts \<noteq> []"
    and bodies: "map body ts = map (\<lambda>g. map (map g) (body vec)) gs"
  shows "combine_rows f ts = map (map (\<lambda>r. f (map (\<lambda>g. g r) gs))) (body vec)"
proof -
  from ne bodies obtain g0 gs' where gs: "gs = g0 # gs'" by (cases gs) auto
  from ne bodies gs have hd: "body (hd ts) = map (map g0) (body vec)"
    by (cases ts) auto
  have rows: "rows_at ts b c = map (\<lambda>g. g (body vec ! b ! c)) gs"
    if "b < length (body vec)" "c < length (body vec ! b)" for b c
  proof -
    have "rows_at ts b c = map (\<lambda>bd. bd ! b ! c) (map body ts)"
      by (simp add: rows_at_def comp_def)
    also have "\<dots> = map (\<lambda>g. g (body vec ! b ! c)) gs"
      unfolding bodies using that by (simp add: comp_def)
    finally show ?thesis .
  qed
  have inner: "map (\<lambda>c. f (rows_at ts b c)) [0..<length (body (hd ts) ! b)]
             = map (\<lambda>r. f (map (\<lambda>g. g r) gs)) (body vec ! b)"
    if b: "b < length (body vec)" for b
  proof -
    have "map (\<lambda>c. f (rows_at ts b c)) [0..<length (body (hd ts) ! b)]
        = map (\<lambda>c. f (map (\<lambda>g. g (body vec ! b ! c)) gs)) [0..<length (body vec ! b)]"
      using b by (simp add: hd rows)
    also have "\<dots> = map (\<lambda>r. f (map (\<lambda>g. g r) gs)) (body vec ! b)"
      by (rule map_upt_nth)
    finally show ?thesis .
  qed
  have "combine_rows f ts
      = map (\<lambda>b. map (\<lambda>r. f (map (\<lambda>g. g r) gs)) (body vec ! b)) [0..<length (body vec)]"
    unfolding combine_rows_def using inner by (simp add: hd)
  also have "\<dots> = map (map (\<lambda>r. f (map (\<lambda>g. g r) gs))) (body vec)"
    by (rule map_upt_nth)
  finally show ?thesis .
qed

lemma concat_transpose_singletons:
  "concat (transpose (map (\<lambda>x. [f x]) xs)) = map f xs"
proof (cases "xs = []")
  case True then show ?thesis by simp
next
  case False
  have "transpose (map (\<lambda>x. [f x]) xs)
      = map (\<lambda>i. map (\<lambda>j. map (\<lambda>x. [f x]) xs ! j ! i) [0..<length (map (\<lambda>x. [f x]) xs)]) [0..<1]"
    by (rule transpose_rectangle) (use False in simp_all)
  also have "\<dots> = [map f xs]"
    by (simp, rule nth_equalityI, simp_all)
  finally show ?thesis by simp
qed

lemma stack_last_derive:
  assumes "ts \<noteq> []"
    and "map body ts = map (\<lambda>g. map (map g) (body vec)) gs"
    and "\<forall>t\<in>set ts. trailing t = []"
  shows "stack_last ts
         = Inr (derive [length ts] (\<lambda>r. concat (transpose (map (\<lambda>g. g r) gs))) vec)"
proof -
  have len: "length (body t) = length (body vec) \<and> map length (body t) = map length (body vec)"
    if "t \<in> set ts" for t
  proof -
    from that have "body t \<in> set (map body ts)" by simp
    then obtain g where "body t = map (map g) (body vec)" unfolding assms(2) by auto
    then show ?thesis by (simp add: comp_def)
  qed
  have "hd ts \<in> set ts" using assms(1) by simp
  then have same: "same_shapes ts"
    using assms(3) len by (auto simp: same_shapes_def list_all_iff lead_def)
  have hdtr: "trailing (hd ts) = []" using assms(1,3) by simp
  show ?thesis
    by (simp add: stack_last_def assms(1) same hdtr combine_rows_derive[OF assms(1,2)] derive_def)
qed

lemma cat_row_one: "cat_row 1 nrs = concat (map (\<lambda>(n, r). take n r) nrs)"
  by (simp add: cat_row_def chunks_def split_def)

lemma cat_last_derive:
  assumes "gs \<noteq> []"
  shows "cat_last (map (\<lambda>(n, g). derive [n] g vec) gs)
         = Inr (derive [sum_list (map fst gs)] (\<lambda>r. concat (map (\<lambda>(n, g). take n (g r)) gs)) vec)"
proof -
  let ?ts = "map (\<lambda>(n, g). derive [n] g vec) gs"
  have ne: "?ts \<noteq> []" using assms by simp
  have bodies: "map body ?ts = map (\<lambda>g. map (map g) (body vec)) (map snd gs)"
    by (simp add: derive_def split_def comp_def)
  have compat: "cat_compatible ?ts"
    using assms by (cases gs) (auto simp: cat_compatible_def list_all_iff derive_def lead_def)
  have hdtr: "butlast (trailing (hd ?ts)) = []"
    using assms by (cases gs) (auto simp: derive_def)
  have lasts: "map last_dim ?ts = map fst gs"
    by (simp add: last_dim_def derive_def split_def)
  have z': "cat_row (Suc 0) (zip (map fst gs) (map (\<lambda>x. snd x r) gs))
            = concat (map (\<lambda>p. take (fst p) (snd p r)) gs)" for r
    by (induction gs) (simp_all add: cat_row_def chunks_def)
  have "cat_last ?ts = Inr \<lparr>trailing = [sum_list (map fst gs)],
          body = combine_rows (\<lambda>rs. cat_row 1 (zip (map fst gs) rs)) ?ts\<rparr>"
    unfolding cat_last_def lasts using ne compat hdtr by simp
  also have "combine_rows (\<lambda>rs. cat_row 1 (zip (map fst gs) rs)) ?ts
     = map (map (\<lambda>r. cat_row 1 (zip (map fst gs) (map (\<lambda>g. g r) (map snd gs))))) (body vec)"
    by (rule combine_rows_derive[OF ne bodies])
  finally show ?thesis
    by (simp add: z' derive_def split_def comp_def)
qed


lemma length_magnitude_means_keys:
  "length (magnitude_means_keys p) = n_orientations p * n_scales p + 2"
  by (simp add: magnitude_means_keys_def length_concat comp_def sum_list_triv)

lemma nested_row:
  assumes "a + length keys \<le> length r"
  shows "concat (transpose (map (\<lambda>g. g r)
           (map (\<lambda>(ii, k). (\<lambda>r. [r ! (a + ii)])) (zip [0..<length keys] keys))))
         = take (length keys) (drop a r)"
proof -
  have "map (\<lambda>g. g r) (map (\<lambda>(ii, k). (\<lambda>r. [r ! (a + ii)])) (zip [0..<length keys] keys))
      = map (\<lambda>x. [r ! (a + fst x)]) (zip [0..<length keys] keys)"
    by (simp add: split_def comp_def)
  then have "concat (transpose (map (\<lambda>g. g r)
           (map (\<lambda>(ii, k). (\<lambda>r. [r ! (a + ii)])) (zip [0..<length keys] keys))))
      = map (\<lambda>x. r ! (a + fst x)) (zip [0..<length keys] keys)"
    by (simp only: concat_transpose_singletons)
  also have "\<dots> = map (\<lambda>i. r ! (a + i)) (map fst (zip [0..<length keys] keys))"
    by (simp only: map_map comp_def)
  also have "\<dots> = map (\<lambda>i. r ! (a + i)) [0..<length keys]"
    by (simp only: map_fst_zip length_upt diff_zero)
  also have "\<dots> = take (length keys) (drop a r)"
    using assms by (intro nth_equalityI) simp_all
  finally show ?thesis .
qed

lemma stat_to_tensor_nested:
  assumes "keys \<noteq> []"
  shows "stat_to_tensor (Nested (map (\<lambda>(ii, k). (k, derive [] (\<lambda>r. [r ! (a + ii)]) vec))
           (zip [0..<length keys] keys)))
       = Inr (derive [length keys] (\<lambda>r. concat (transpose (map (\<lambda>g. g r)
           (map (\<lambda>(ii, k). (\<lambda>r. [r ! (a + ii)])) (zip [0..<length keys] keys))))) vec)"
proof -
  let ?d = "map (\<lambda>(ii, k). (k, derive [] (\<lambda>r. [r ! (a + ii)]) vec)) (zip [0..<length keys] keys)"
  have ne: "map snd ?d \<noteq> []" using assms by simp
  have bodies: "map body (map snd ?d) = map (\<lambda>g. map (map g) (body vec))
        (map (\<lambda>(ii, k). (\<lambda>r. [r ! (a + ii)])) (zip [0..<length keys] keys))"
    by (simp add: derive_def split_def comp_def)
  have tr: "\<forall>t\<in>set (map snd ?d). trailing t = []"
    by (auto simp: derive_def)
  have "stack_last (map snd ?d) = Inr (derive [length (map snd ?d)] (\<lambda>r. concat (transpose (map (\<lambda>g. g r)
           (map (\<lambda>(ii, k). (\<lambda>r. [r ! (a + ii)])) (zip [0..<length keys] keys))))) vec)"
    by (rule stack_last_derive[OF ne bodies tr])
  then show ?thesis by simp
qed

lemma stat_to_tensor_leaf:
  "stat_to_tensor (Leaf (derive sh g vec)) = Inr (derive (if sh = [] then [1] else [prod_list sh]) g vec)"
  by (simp add: ndim_def derive_def unsqueeze_last_def flatten_from2_def)

lemma derive_id:
  assumes "wf_vec vec" "trailing vec = [L]" "\<And>r. length r = L \<Longrightarrow> F r = r"
  shows "derive [L] F vec = vec"
proof -
  have "map (map F) (body vec) = body vec"
    using assms by (auto simp: wf_vec_def wf_tensor_def list_all_iff intro!: map_idI)
  then show ?thesis using assms(2) by (simp add: derive_def)
qed

section \<open>The round trip through the dictionary\<close>

lemma take_chain: "take a r @ (take n (drop a r) @ zs) = take (a + n) r @ zs"
  by (simp add: take_add)

lemma take_chain_last: "a < length r \<Longrightarrow> length r = a + 1 \<Longrightarrow> take a r @ [r ! a] = r"
  by (metis Suc_eq_plus1 lessI take_Suc_conv_app_nth take_all order_refl)

lemma roundtrip_aux:
  assumes wf: "wf_vec vec" and len: "last_dim vec = length (representation_scales p)"
  shows "bind_err (convert_to_dict p vec) convert_to_vector = Inr vec"
proof -
  define W S K D where "W = spatial_corr_width p" and "S = n_scales p"
    and "K = n_orientations p" and "D = max (2 * n_orientations p) 5"
  define pixkeys where "pixkeys = [KStr ''mean'', KStr ''var'', KStr ''skew'', KStr ''kurtosis'',
                     KStr ''min'', KStr ''max'']"
  define keys where "keys = magnitude_means_keys p"
  define k1 where "k1 = length keys"
  define kacm where "kacm = prod_list [W, W, S, K]"
  define ks where "ks = S + 1"
  define kacr where "kacr = prod_list [W, W, S + 1]"
  define kcom where "kcom = prod_list [K, K, S + 1]"
  define kcsm where "kcsm = prod_list [K, K, S]"
  define kcor where "kcor = prod_list [D, D, S + 1]"
  define kcsr where "kcsr = prod_list [2 * K, D, S]"
  define n1 where "n1 = 6 + k1"
  define n2 where "n2 = n1 + kacm"
  define n3 where "n3 = n2 + ks"
  define n4 where "n4 = n3 + ks"
  define n5 where "n5 = n4 + kacr"
  define n6 where "n6 = (if use_true_correlations p then n5 + ks else n5)"
  define n7 where "n7 = n6 + kcom"
  define n8 where "n8 = n7 + kcsm"
  define n9 where "n9 = n8 + kcor"
  define n10 where "n10 = n9 + kcsr"
  note ndefs = n1_def n2_def n3_def n4_def n5_def n6_def n7_def n8_def n9_def n10_def
  note kdefs = k1_def kacm_def ks_def kacr_def kcom_def kcsm_def kcor_def kcsr_def
  have lk: "length keys = K * S + 2"
    by (simp add: keys_def length_magnitude_means_keys K_def S_def)
  have k1': "(length keys - 1) + 1 = k1" by (simp add: k1_def lk)
  have lp: "length pixkeys = 6" by (simp add: pixkeys_def)
  from wf obtain L where tr: "trailing vec = [L]"
    by (cases "trailing vec") (auto simp: wf_vec_def)
  have ld: "last_dim vec = L" by (simp add: last_dim_def tr)
  have L: "L = n10 + 1"
    using len unfolding ld length_representation_scales total_length_def Let_def ndefs kdefs lk
      ori_crossed_def W_def S_def K_def D_def
    by (simp add: algebra_simps power2_eq_square)
  have cd: "convert_to_dict p vec =
        bind_err (select_keys vec 0 pixkeys) (\<lambda>pixel_statistics.
        bind_err (select_keys vec 6 keys) (\<lambda>magnitude_means.
        bind_err (take_block vec n1 [W, W, S, K]) (\<lambda>auto_correlation_magnitude.
        bind_err (take_block vec n4 [W, W, S + 1]) (\<lambda>auto_correlation_reconstructed.
        bind_err (take_block vec n6 [K, K, S + 1]) (\<lambda>cross_orientation_correlation_magnitude.
        bind_err (take_block vec n7 [K, K, S]) (\<lambda>cross_scale_correlation_magnitude.
        bind_err (take_block vec n8 [D, D, S + 1]) (\<lambda>cross_orientation_correlation_real.
        bind_err (take_block vec n9 [2 * K, D, S]) (\<lambda>cross_scale_correlation_real.
        bind_err (select_last vec n10) (\<lambda>var_highpass_residual.
        Inr ([(''pixel_statistics'', Nested pixel_statistics),
              (''magnitude_means'', Nested magnitude_means),
              (''auto_correlation_magnitude'', Leaf auto_correlation_magnitude),
              (''skew_reconstructed'', Leaf (slice_last vec n2 (n2 + ks))),
              (''kurtosis_reconstructed'', Leaf (slice_last vec n3 (n3 + ks))),
              (''auto_correlation_reconstructed'', Leaf auto_correlation_reconstructed)]
             @ (if use_true_correlations p
                then [(''std_reconstructed'', Leaf (slice_last vec n5 (n5 + ks)))]
                else [])
             @ [(''cross_orientation_correlation_magnitude'',
                   Leaf cross_orientation_correlation_magnitude),
                (''cross_scale_correlation_magnitude'', Leaf cross_scale_correlation_magnitude),
                (''cross_orientation_correlation_real'', Leaf cross_orientation_correlation_real),
                (''cross_scale_correlation_real'', Leaf cross_scale_correlation_real),
                (''var_highpass_residual'', Leaf var_highpass_residual)]))))))))))"
    unfolding convert_to_dict_def Let_def ndefs kacm_def ks_def kacr_def kcom_def kcsm_def
      kcor_def kcsr_def k1'[symmetric] pixkeys_def keys_def W_def S_def K_def D_def
    using len by (simp only: simp_thms if_False)
  define gpix :: "'a list \<Rightarrow> 'a list" where "gpix = (\<lambda>r. concat (transpose (map (\<lambda>g. g r)
           (map (\<lambda>(ii, k). (\<lambda>r. [r ! (0 + ii)])) (zip [0..<length pixkeys] pixkeys)))))"
  define gmm :: "'a list \<Rightarrow> 'a list" where "gmm = (\<lambda>r. concat (transpose (map (\<lambda>g. g r)
           (map (\<lambda>(ii, k). (\<lambda>r. [r ! (6 + ii)])) (zip [0..<length keys] keys)))))"
  have bounds: "6 \<le> L" "6 + length keys \<le> L" "n1 + kacm \<le> L" "n2 + ks \<le> L" "n3 + ks \<le> L"
    "n4 + kacr \<le> L" "n5 + ks \<le> L \<or> \<not> use_true_correlations p" "n6 + kcom \<le> L"
    "n7 + kcsm \<le> L" "n8 + kcor \<le> L" "n9 + kcsr \<le> L" "n10 < L"
    unfolding L ndefs k1_def by (simp_all split: if_splits)
  have pk: "select_keys vec 0 pixkeys = Inr (map (\<lambda>(ii, k). (k, derive [] (\<lambda>r. [r ! (0 + ii)]) vec))
              (zip [0..<length pixkeys] pixkeys))"
    by (rule select_keys_derive) (simp add: lp ld bounds)
  have mk: "select_keys vec 6 keys = Inr (map (\<lambda>(ii, k). (k, derive [] (\<lambda>r. [r ! (6 + ii)]) vec))
              (zip [0..<length keys] keys))"
    by (rule select_keys_derive) (simp add: ld bounds)
  have tb1: "take_block vec n1 [W, W, S, K] = Inr (derive [W, W, S, K] (\<lambda>r. take kacm (drop n1 r)) vec)"
    using take_block_derive[OF tr, of n1 "[W, W, S, K]"] bounds by (simp add: kacm_def)
  have tb4: "take_block vec n4 [W, W, S + 1] = Inr (derive [W, W, S + 1] (\<lambda>r. take kacr (drop n4 r)) vec)"
    using take_block_derive[OF tr, of n4 "[W, W, S + 1]"] bounds by (simp add: kacr_def)
  have tb6: "take_block vec n6 [K, K, S + 1] = Inr (derive [K, K, S + 1] (\<lambda>r. take kcom (drop n6 r)) vec)"
    using take_block_derive[OF tr, of n6 "[K, K, S + 1]"] bounds by (simp add: kcom_def)
  have tb7: "take_block vec n7 [K, K, S] = Inr (derive [K, K, S] (\<lambda>r. take kcsm (drop n7 r)) vec)"
    using take_block_derive[OF tr, of n7 "[K, K, S]"] bounds by (simp add: kcsm_def)
  have tb8: "take_block vec n8 [D, D, S + 1] = Inr (derive [D, D, S + 1] (\<lambda>r. take kcor (drop n8 r)) vec)"
    using take_block_derive[OF tr, of n8 "[D, D, S + 1]"] bounds by (simp add: kcor_def)
  have tb9: "take_block vec n9 [2 * K, D, S] = Inr (derive [2 * K, D, S] (\<lambda>r. take kcsr (drop n9 r)) vec)"
    using take_block_derive[OF tr, of n9 "[2 * K, D, S]"] bounds by (simp add: kcsr_def)
  have sl: "select_last vec n10 = Inr (derive [] (\<lambda>r. [r ! n10]) vec)"
    by (rule select_last_derive) (simp add: ld bounds)
  have s2: "slice_last vec n2 (n2 + ks) = derive [ks] (\<lambda>r. take ks (drop n2 r)) vec"
    by (rule slice_last_derive[OF tr]) (rule bounds)
  have s3: "slice_last vec n3 (n3 + ks) = derive [ks] (\<lambda>r. take ks (drop n3 r)) vec"
    by (rule slice_last_derive[OF tr]) (rule bounds)
  have s5: "use_true_correlations p \<Longrightarrow>
      slice_last vec n5 (n5 + ks) = derive [ks] (\<lambda>r. take ks (drop n5 r)) vec"
    by (rule slice_last_derive[OF tr]) (use bounds in simp)
  define GS :: "(nat \<times> ('a list \<Rightarrow> 'a list)) list" where "GS =
     [(length pixkeys, gpix), (length keys, gmm), (kacm, \<lambda>r. take kacm (drop n1 r)),
      (ks, \<lambda>r. take ks (drop n2 r)), (ks, \<lambda>r. take ks (drop n3 r)),
      (kacr, \<lambda>r. take kacr (drop n4 r))]
     @ (if use_true_correlations p then [(ks, \<lambda>r. take ks (drop n5 r))] else [])
     @ [(kcom, \<lambda>r. take kcom (drop n6 r)), (kcsm, \<lambda>r. take kcsm (drop n7 r)),
        (kcor, \<lambda>r. take kcor (drop n8 r)), (kcsr, \<lambda>r. take kcsr (drop n9 r)),
        (1, \<lambda>r. [r ! n10])]"
  have pne: "pixkeys \<noteq> []" by (simp add: pixkeys_def)
  have kne: "keys \<noteq> []" using lk by auto
  have stn_p: "stat_to_tensor (Nested (map (\<lambda>(ii, k). (k, derive [] (\<lambda>r. [r ! (0 + ii)]) vec))
              (zip [0..<length pixkeys] pixkeys))) = Inr (derive [length pixkeys] gpix vec)"
    unfolding gpix_def by (rule stat_to_tensor_nested[OF pne])
  have stn_m: "stat_to_tensor (Nested (map (\<lambda>(ii, k). (k, derive [] (\<lambda>r. [r ! (6 + ii)]) vec))
              (zip [0..<length keys] keys))) = Inr (derive [length keys] gmm vec)"
    unfolding gmm_def by (rule stat_to_tensor_nested[OF kne])
  have vec_of: "bind_err (convert_to_dict p vec) convert_to_vector
       = cat_last (map (\<lambda>(n, g). derive [n] g vec) GS)"
    unfolding cd pk mk tb1 tb4 tb6 tb7 tb8 tb9 sl s2 s3
    by (cases "use_true_correlations p")
       (simp_all add: bind_err_def convert_to_vector_def stn_p[unfolded add_0] stn_m
          stat_to_tensor_leaf s5 GS_def kacm_def kacr_def kcom_def kcsm_def kcor_def kcsr_def
          del: stat_to_tensor.simps)
  have gne: "GS \<noteq> []" by (simp add: GS_def)
  have total: "sum_list (map fst GS) = L"
    unfolding GS_def L ndefs lp k1_def by simp
  have F: "concat (map (\<lambda>(n, g). take n (g r)) GS) = r" if r: "length r = L" for r
  proof -
    have gp: "gpix r = take 6 r"
      unfolding gpix_def using nested_row[of 0 pixkeys r] bounds r by (simp add: lp)
    have gm: "gmm r = take k1 (drop 6 r)"
      unfolding gmm_def k1_def by (rule nested_row) (simp add: r bounds)
    have last: "take n10 r @ [r ! n10] = r"
      by (rule take_chain_last) (simp_all add: r L)
    show ?thesis
    proof (cases "use_true_correlations p")
      case True
      then have n6: "n6 = n5 + ks" by (simp add: n6_def)
      have "concat (map (\<lambda>(n, g). take n (g r)) GS)
          = take 6 r @ (take k1 (drop 6 r) @ (take kacm (drop n1 r) @ (take ks (drop n2 r) @
            (take ks (drop n3 r) @ (take kacr (drop n4 r) @ (take ks (drop n5 r) @
            (take kcom (drop n6 r) @ (take kcsm (drop n7 r) @ (take kcor (drop n8 r) @
            (take kcsr (drop n9 r) @ [r ! n10]))))))))))"
        using True by (simp add: GS_def gp gm lp k1_def)
      also have "\<dots> = take n10 r @ [r ! n10]"
        by (simp only: take_chain n1_def[symmetric] n2_def[symmetric] n3_def[symmetric]
            n4_def[symmetric] n5_def[symmetric] n6[symmetric] n7_def[symmetric] n8_def[symmetric]
            n9_def[symmetric] n10_def[symmetric])
      finally show ?thesis using last by simp
    next
      case False
      then have n6: "n6 = n5" by (simp add: n6_def)
      have "concat (map (\<lambda>(n, g). take n (g r)) GS)
          = take 6 r @ (take k1 (drop 6 r) @ (take kacm (drop n1 r) @ (take ks (drop n2 r) @
            (take ks (drop n3 r) @ (take kacr (drop n4 r) @
            (take kcom (drop n5 r) @ (take kcsm (drop n7 r) @ (take kcor (drop n8 r) @
            (take kcsr (drop n9 r) @ [r ! n10])))))))))"
        using False by (simp add: GS_def gp gm lp k1_def n6)
      also have "\<dots> = take n10 r @ [r ! n10]"
        by (simp only: take_chain n1_def[symmetric] n2_def[symmetric] n3_def[symmetric]
            n4_def[symmetric] n5_def[symmetric] n7_def[unfolded n6, symmetric] n8_def[symmetric]
            n9_def[symmetric] n10_def[symmetric])
      finally show ?thesis using last by simp
    qed
  qed
  have "cat_last (map (\<lambda>(n, g). derive [n] g vec) GS)
      = Inr (derive [sum_list (map fst GS)] (\<lambda>r. concat (map (\<lambda>(n, g). take n (g r)) GS)) vec)"
    by (rule cat_last_derive[OF gne])
  also have "derive [sum_list (map fst GS)] (\<lambda>r. concat (map (\<lambda>(n, g). take n (g r)) GS)) vec = vec"
    unfolding total by (rule derive_id[OF wf tr]) (rule F)
  finally show ?thesis using vec_of by simp
qed

text \<open>The dictionary that \<^verbatim>\<open>convert_to_dict\<close> builds from a vector of full length, entry by entry.\<close>

lemma enumerate_from:
  "map (\<lambda>(ii, k). (k, f (n + ii))) (zip [0..<length xs] xs)
   = map (\<lambda>(i, k). (k, f i)) (List.enumerate n xs)"
  by (rule nth_equalityI) (simp_all add: nth_enumerate_eq)

lemma enumerate_band:
  "map (\<lambda>(i, k). (k, f i)) (List.enumerate m (map (KBand sc) [0..<K]))
   = map (\<lambda>ori. (KBand sc ori, f (m + ori))) [0..<K]"
  by (rule nth_equalityI) (simp_all add: nth_enumerate_eq)

lemma length_concat_bands:
  "length (concat (map (\<lambda>sc. map (KBand sc) [0..<K]) [0..<S])) = S * K"
  by (induction S) simp_all

lemma enumerate_bands:
  "map (\<lambda>(i, k). (k, f i))
     (List.enumerate m (concat (map (\<lambda>sc. map (KBand sc) [0..<K]) [0..<S])))
   = concat (map (\<lambda>sc. map (\<lambda>ori. (KBand sc ori, f (m + sc * K + ori))) [0..<K]) [0..<S])"
proof (induction S)
  case 0
  then show ?case by simp
next
  case (Suc S)
  show ?case
    by (simp add: enumerate_append_eq Suc length_concat_bands enumerate_band)
qed

lemma enumerate_magnitude_means_keys:
  "map (\<lambda>(ii, k). (k, f (6 + ii)))
     (zip [0..<length (magnitude_means_keys p)] (magnitude_means_keys p))
   = [(KStr ''residual_highpass'', f 6)]
     @ concat (map (\<lambda>sc. map (\<lambda>ori. (KBand sc ori, f (7 + sc * n_orientations p + ori)))
                      [0..<n_orientations p]) [0..<n_scales p])
     @ [(KStr ''residual_lowpass'', f (7 + n_scales p * n_orientations p))]"
  unfolding enumerate_from magnitude_means_keys_def
  by (simp add: enumerate_append_eq enumerate_bands length_concat_bands)

lemma convert_to_dict_explicit:
  assumes wf: "wf_vec vec" and len: "last_dim vec = length (representation_scales p)"
  shows "convert_to_dict p vec = Inr (
     let S = n_scales p; K = n_orientations p; W = spatial_corr_width p; D = max (2 * K) 5;
         entry = (\<lambda>i. \<lparr>trailing = [], body = map (map (\<lambda>r. [r ! i])) (body vec)\<rparr>);
         block = (\<lambda>a sh. \<lparr>trailing = sh,
                     body = map (map (\<lambda>r. take (prod_list sh) (drop a r))) (body vec)\<rparr>);
         a1 = 8 + K * S;
         a2 = a1 + W * W * S * K;
         a3 = a2 + (S + 1);
         a4 = a3 + (S + 1);
         a5 = a4 + W * W * (S + 1);
         a6 = (if use_true_correlations p then a5 + (S + 1) else a5);
         a7 = a6 + K * K * (S + 1);
         a8 = a7 + K * K * S;
         a9 = a8 + D * D * (S + 1);
         a10 = a9 + 2 * K * D * S
     in [(''pixel_statistics'',
            Nested [(KStr ''mean'', entry 0), (KStr ''var'', entry 1), (KStr ''skew'', entry 2),
                    (KStr ''kurtosis'', entry 3), (KStr ''min'', entry 4), (KStr ''max'', entry 5)]),
         (''magnitude_means'',
            Nested ([(KStr ''residual_highpass'', entry 6)]
                    @ concat (map (\<lambda>sc. map (\<lambda>ori. (KBand sc ori, entry (7 + sc * K + ori)))
                                            [0..<K]) [0..<S])
                    @ [(KStr ''residual_lowpass'', entry (7 + S * K))])),
         (''auto_correlation_magnitude'', Leaf (block a1 [W, W, S, K])),
         (''skew_reconstructed'', Leaf (block a2 [S + 1])),
         (''kurtosis_reconstructed'', Leaf (block a3 [S + 1])),
         (''auto_correlation_reconstructed'', Leaf (block a4 [W, W, S + 1]))]
        @ (if use_true_correlations p
           then [(''std_reconstructed'', Leaf (block a5 [S + 1]))] else [])
        @ [(''cross_orientation_correlation_magnitude'', Leaf (block a6 [K, K, S + 1])),
           (''cross_scale_correlation_magnitude'', Leaf (block a7 [K, K, S])),
           (''cross_orientation_correlation_real'', Leaf (block a8 [D, D, S + 1])),
           (''cross_scale_correlation_real'', Leaf (block a9 [2 * K, D, S])),
           (''var_highpass_residual'', Leaf (entry a10))])"
proof -
  define W S K D where "W = spatial_corr_width p" and "S = n_scales p"
    and "K = n_orientations p" and "D = max (2 * n_orientations p) 5"
  define pixkeys where "pixkeys = [KStr ''mean'', KStr ''var'', KStr ''skew'', KStr ''kurtosis'',
                     KStr ''min'', KStr ''max'']"
  define keys where "keys = magnitude_means_keys p"
  define k1 where "k1 = length keys"
  define kacm where "kacm = prod_list [W, W, S, K]"
  define ks where "ks = S + 1"
  define kacr where "kacr = prod_list [W, W, S + 1]"
  define kcom where "kcom = prod_list [K, K, S + 1]"
  define kcsm where "kcsm = prod_list [K, K, S]"
  define kcor where "kcor = prod_list [D, D, S + 1]"
  define kcsr where "kcsr = prod_list [2 * K, D, S]"
  define n1 where "n1 = 6 + k1"
  define n2 where "n2 = n1 + kacm"
  define n3 where "n3 = n2 + ks"
  define n4 where "n4 = n3 + ks"
  define n5 where "n5 = n4 + kacr"
  define n6 where "n6 = (if use_true_correlations p then n5 + ks else n5)"
  define n7 where "n7 = n6 + kcom"
  define n8 where "n8 = n7 + kcsm"
  define n9 where "n9 = n8 + kcor"
  define n10 where "n10 = n9 + kcsr"
  note ndefs = n1_def n2_def n3_def n4_def n5_def n6_def n7_def n8_def n9_def n10_def
  note kdefs = k1_def kacm_def ks_def kacr_def kcom_def kcsm_def kcor_def kcsr_def
  have lk: "length keys = K * S + 2"
    by (simp add: keys_def length_magnitude_means_keys K_def S_def)
  have k1': "(length keys - 1) + 1 = k1" by (simp add: k1_def lk)
  have lp: "length pixkeys = 6" by (simp add: pixkeys_def)
  from wf obtain L where tr: "trailing vec = [L]"
    by (cases "trailing vec") (auto simp: wf_vec_def)
  have ld: "last_dim vec = L" by (simp add: last_dim_def tr)
  have L: "L = n10 + 1"
    using len unfolding ld length_representation_scales total_length_def Let_def ndefs kdefs lk
      ori_crossed_def W_def S_def K_def D_def
    by (simp add: algebra_simps power2_eq_square)
  have cd: "convert_to_dict p vec =
        bind_err (select_keys vec 0 pixkeys) (\<lambda>pixel_statistics.
        bind_err (select_keys vec 6 keys) (\<lambda>magnitude_means.
        bind_err (take_block vec n1 [W, W, S, K]) (\<lambda>auto_correlation_magnitude.
        bind_err (take_block vec n4 [W, W, S + 1]) (\<lambda>auto_correlation_reconstructed.
        bind_err (take_block vec n6 [K, K, S + 1]) (\<lambda>cross_orientation_correlation_magnitude.
        bind_err (take_block vec n7 [K, K, S]) (\<lambda>cross_scale_correlation_magnitude.
        bind_err (take_block vec n8 [D, D, S + 1]) (\<lambda>cross_orientation_correlation_real.
        bind_err (take_block vec n9 [2 * K, D, S]) (\<lambda>cross_scale_correlation_real.
        bind_err (select_last vec n10) (\<lambda>var_highpass_residual.
        Inr ([(''pixel_statistics'', Nested pixel_statistics),
              (''magnitude_means'', Nested magnitude_means),
              (''auto_correlation_magnitude'', Leaf auto_correlation_magnitude),
              (''skew_reconstructed'', Leaf (slice_last vec n2 (n2 + ks))),
              (''kurtosis_reconstructed'', Leaf (slice_last vec n3 (n3 + ks))),
              (''auto_correlation_reconstructed'', Leaf auto_correlation_reconstructed)]
             @ (if use_true_correlations p
                then [(''std_reconstructed'', Leaf (slice_last vec n5 (n5 + ks)))]
                else [])
             @ [(''cross_orientation_correlation_magnitude'',
                   Leaf cross_orientation_correlation_magnitude),
                (''cross_scale_correlation_magnitude'', Leaf cross_scale_correlation_magnitude),
                (''cross_orientation_correlation_real'', Leaf cross_orientation_correlation_real),
                (''cross_scale_correlation_real'', Leaf cross_scale_correlation_real),
                (''var_highpass_residual'', Leaf var_highpass_residual)]))))))))))"
    unfolding convert_to_dict_def Let_def ndefs kacm_def ks_def kacr_def kcom_def kcsm_def
      kcor_def kcsr_def k1'[symmetric] pixkeys_def keys_def W_def S_def K_def D_def
    using len by (simp only: simp_thms if_False)
  have bounds: "6 \<le> L" "6 + length keys \<le> L" "n1 + kacm \<le> L" "n2 + ks \<le> L" "n3 + ks \<le> L"
    "n4 + kacr \<le> L" "n5 + ks \<le> L \<or> \<not> use_true_correlations p" "n6 + kcom \<le> L"
    "n7 + kcsm \<le> L" "n8 + kcor \<le> L" "n9 + kcsr \<le> L" "n10 < L"
    unfolding L ndefs k1_def by (simp_all split: if_splits)
  have pk: "select_keys vec 0 pixkeys = Inr (map (\<lambda>(ii, k). (k, derive [] (\<lambda>r. [r ! (0 + ii)]) vec))
              (zip [0..<length pixkeys] pixkeys))"
    by (rule select_keys_derive) (simp add: lp ld bounds)
  have mk: "select_keys vec 6 keys = Inr (map (\<lambda>(ii, k). (k, derive [] (\<lambda>r. [r ! (6 + ii)]) vec))
              (zip [0..<length keys] keys))"
    by (rule select_keys_derive) (simp add: ld bounds)
  have tb1: "take_block vec n1 [W, W, S, K] = Inr (derive [W, W, S, K] (\<lambda>r. take kacm (drop n1 r)) vec)"
    using take_block_derive[OF tr, of n1 "[W, W, S, K]"] bounds by (simp add: kacm_def)
  have tb4: "take_block vec n4 [W, W, S + 1] = Inr (derive [W, W, S + 1] (\<lambda>r. take kacr (drop n4 r)) vec)"
    using take_block_derive[OF tr, of n4 "[W, W, S + 1]"] bounds by (simp add: kacr_def)
  have tb6: "take_block vec n6 [K, K, S + 1] = Inr (derive [K, K, S + 1] (\<lambda>r. take kcom (drop n6 r)) vec)"
    using take_block_derive[OF tr, of n6 "[K, K, S + 1]"] bounds by (simp add: kcom_def)
  have tb7: "take_block vec n7 [K, K, S] = Inr (derive [K, K, S] (\<lambda>r. take kcsm (drop n7 r)) vec)"
    using take_block_derive[OF tr, of n7 "[K, K, S]"] bounds by (simp add: kcsm_def)
  have tb8: "take_block vec n8 [D, D, S + 1] = Inr (derive [D, D, S + 1] (\<lambda>r. take kcor (drop n8 r)) vec)"
    using take_block_derive[OF tr, of n8 "[D, D, S + 1]"] bounds by (simp add: kcor_def)
  have tb9: "take_block vec n9 [2 * K, D, S] = Inr (derive [2 * K, D, S] (\<lambda>r. take kcsr (drop n9 r)) vec)"
    using take_block_derive[OF tr, of n9 "[2 * K, D, S]"] bounds by (simp add: kcsr_def)
  have sl: "select_last vec n10 = Inr (derive [] (\<lambda>r. [r ! n10]) vec)"
    by (rule select_last_derive) (simp add: ld bounds)
  have s2: "slice_last vec n2 (n2 + ks) = derive [ks] (\<lambda>r. take ks (drop n2 r)) vec"
    by (rule slice_last_derive[OF tr]) (rule bounds)
  have s3: "slice_last vec n3 (n3 + ks) = derive [ks] (\<lambda>r. take ks (drop n3 r)) vec"
    by (rule slice_last_derive[OF tr]) (rule bounds)
  have s5: "use_true_correlations p \<Longrightarrow>
      slice_last vec n5 (n5 + ks) = derive [ks] (\<lambda>r. take ks (drop n5 r)) vec"
    by (rule slice_last_derive[OF tr]) (use bounds in simp)
  have pk': "map (\<lambda>(ii, k). (k, derive [] (\<lambda>r. [r ! (0 + ii)]) vec))
              (zip [0..<length pixkeys] pixkeys)
      = [(KStr ''mean'', derive [] (\<lambda>r. [r ! 0]) vec), (KStr ''var'', derive [] (\<lambda>r. [r ! 1]) vec),
         (KStr ''skew'', derive [] (\<lambda>r. [r ! 2]) vec), (KStr ''kurtosis'', derive [] (\<lambda>r. [r ! 3]) vec),
         (KStr ''min'', derive [] (\<lambda>r. [r ! 4]) vec), (KStr ''max'', derive [] (\<lambda>r. [r ! 5]) vec)]"
    by (simp add: pixkeys_def upt_rec eval_nat_numeral)
  have mk': "map (\<lambda>(ii, k). (k, derive [] (\<lambda>r. [r ! (6 + ii)]) vec)) (zip [0..<length keys] keys)
      = [(KStr ''residual_highpass'', derive [] (\<lambda>r. [r ! 6]) vec)]
        @ concat (map (\<lambda>sc. map (\<lambda>ori. (KBand sc ori, derive [] (\<lambda>r. [r ! (7 + sc * K + ori)]) vec))
                      [0..<K]) [0..<S])
        @ [(KStr ''residual_lowpass'', derive [] (\<lambda>r. [r ! (7 + S * K)]) vec)]"
    unfolding keys_def K_def S_def
    by (rule enumerate_magnitude_means_keys[of "\<lambda>i. derive [] (\<lambda>r. [r ! i]) vec"])
  have a1: "n1 = 8 + K * S" by (simp add: n1_def k1_def lk)
  have raw: "convert_to_dict p vec = Inr (
       [(''pixel_statistics'',
            Nested [(KStr ''mean'', derive [] (\<lambda>r. [r ! 0]) vec), (KStr ''var'', derive [] (\<lambda>r. [r ! 1]) vec),
         (KStr ''skew'', derive [] (\<lambda>r. [r ! 2]) vec), (KStr ''kurtosis'', derive [] (\<lambda>r. [r ! 3]) vec),
         (KStr ''min'', derive [] (\<lambda>r. [r ! 4]) vec), (KStr ''max'', derive [] (\<lambda>r. [r ! 5]) vec)]),
         (''magnitude_means'',
            Nested ([(KStr ''residual_highpass'', derive [] (\<lambda>r. [r ! 6]) vec)]
        @ concat (map (\<lambda>sc. map (\<lambda>ori. (KBand sc ori, derive [] (\<lambda>r. [r ! (7 + sc * K + ori)]) vec))
                      [0..<K]) [0..<S])
        @ [(KStr ''residual_lowpass'', derive [] (\<lambda>r. [r ! (7 + S * K)]) vec)])),
         (''auto_correlation_magnitude'', Leaf (derive [W, W, S, K] (\<lambda>r. take kacm (drop n1 r)) vec)),
         (''skew_reconstructed'', Leaf (derive [ks] (\<lambda>r. take ks (drop n2 r)) vec)),
         (''kurtosis_reconstructed'', Leaf (derive [ks] (\<lambda>r. take ks (drop n3 r)) vec)),
         (''auto_correlation_reconstructed'', Leaf (derive [W, W, S + 1] (\<lambda>r. take kacr (drop n4 r)) vec))]
        @ (if use_true_correlations p
           then [(''std_reconstructed'', Leaf (derive [ks] (\<lambda>r. take ks (drop n5 r)) vec))] else [])
        @ [(''cross_orientation_correlation_magnitude'', Leaf (derive [K, K, S + 1] (\<lambda>r. take kcom (drop n6 r)) vec)),
           (''cross_scale_correlation_magnitude'', Leaf (derive [K, K, S] (\<lambda>r. take kcsm (drop n7 r)) vec)),
           (''cross_orientation_correlation_real'', Leaf (derive [D, D, S + 1] (\<lambda>r. take kcor (drop n8 r)) vec)),
           (''cross_scale_correlation_real'', Leaf (derive [2 * K, D, S] (\<lambda>r. take kcsr (drop n9 r)) vec)),
           (''var_highpass_residual'', Leaf (derive [] (\<lambda>r. [r ! n10]) vec))])"
    unfolding cd pk mk tb1 tb4 tb6 tb7 tb8 tb9 sl s2 s3 pk' mk'
    by (cases "use_true_correlations p") (simp_all add: bind_err_def s5)
  define a2 a3 a4 a5 a6 a7 a8 a9 a10 where "a2 = 8 + K * S + W * W * S * K"
    and "a3 = a2 + (S + 1)" and "a4 = a3 + (S + 1)" and "a5 = a4 + W * W * (S + 1)"
    and "a6 = (if use_true_correlations p then a5 + (S + 1) else a5)"
    and "a7 = a6 + K * K * (S + 1)" and "a8 = a7 + K * K * S"
    and "a9 = a8 + D * D * (S + 1)" and "a10 = a9 + 2 * K * D * S"
  note adefs = a2_def a3_def a4_def a5_def a6_def a7_def a8_def a9_def a10_def
  have e2: "n2 = a2" by (simp add: n2_def a2_def a1 kacm_def algebra_simps)
  have e3: "n3 = a3" by (simp add: n3_def a3_def e2 ks_def)
  have e4: "n4 = a4" by (simp add: n4_def a4_def e3 ks_def)
  have e5: "n5 = a5" by (simp add: n5_def a5_def e4 kacr_def algebra_simps)
  have e6: "n6 = a6" by (simp add: n6_def a6_def e5 ks_def)
  have e7: "n7 = a7" by (simp add: n7_def a7_def e6 kcom_def algebra_simps)
  have e8: "n8 = a8" by (simp add: n8_def a8_def e7 kcsm_def algebra_simps)
  have e9: "n9 = a9" by (simp add: n9_def a9_def e8 kcor_def algebra_simps)
  have e10: "n10 = a10" by (simp add: n10_def a10_def e9 kcsr_def algebra_simps)
  have raw2: "convert_to_dict p vec = Inr (
       [(''pixel_statistics'',
            Nested [(KStr ''mean'', derive [] (\<lambda>r. [r ! 0]) vec), (KStr ''var'', derive [] (\<lambda>r. [r ! 1]) vec),
         (KStr ''skew'', derive [] (\<lambda>r. [r ! 2]) vec), (KStr ''kurtosis'', derive [] (\<lambda>r. [r ! 3]) vec),
         (KStr ''min'', derive [] (\<lambda>r. [r ! 4]) vec), (KStr ''max'', derive [] (\<lambda>r. [r ! 5]) vec)]),
         (''magnitude_means'',
            Nested ([(KStr ''residual_highpass'', derive [] (\<lambda>r. [r ! 6]) vec)]
        @ concat (map (\<lambda>sc. map (\<lambda>ori. (KBand sc ori, derive [] (\<lambda>r. [r ! (7 + sc * K + ori)]) vec))
                      [0..<K]) [0..<S])
        @ [(KStr ''residual_lowpass'', derive [] (\<lambda>r. [r ! (7 + S * K)]) vec)])),
         (''auto_correlation_magnitude'',
            Leaf (derive [W, W, S, K] (\<lambda>r. take (prod_list [W, W, S, K]) (drop (8 + K * S) r)) vec)),
         (''skew_reconstructed'', Leaf (derive [S + 1] (\<lambda>r. take (prod_list [S + 1]) (drop a2 r)) vec)),
         (''kurtosis_reconstructed'', Leaf (derive [S + 1] (\<lambda>r. take (prod_list [S + 1]) (drop a3 r)) vec)),
         (''auto_correlation_reconstructed'',
            Leaf (derive [W, W, S + 1] (\<lambda>r. take (prod_list [W, W, S + 1]) (drop a4 r)) vec))]
        @ (if use_true_correlations p
           then [(''std_reconstructed'', Leaf (derive [S + 1] (\<lambda>r. take (prod_list [S + 1]) (drop a5 r)) vec))]
           else [])
        @ [(''cross_orientation_correlation_magnitude'',
              Leaf (derive [K, K, S + 1] (\<lambda>r. take (prod_list [K, K, S + 1]) (drop a6 r)) vec)),
           (''cross_scale_correlation_magnitude'',
              Leaf (derive [K, K, S] (\<lambda>r. take (prod_list [K, K, S]) (drop a7 r)) vec)),
           (''cross_orientation_correlation_real'',
              Leaf (derive [D, D, S + 1] (\<lambda>r. take (prod_list [D, D, S + 1]) (drop a8 r)) vec)),
           (''cross_scale_correlation_real'',
              Leaf (derive [2 * K, D, S] (\<lambda>r. take (prod_list [2 * K, D, S]) (drop a9 r)) vec)),
           (''var_highpass_residual'', Leaf (derive [] (\<lambda>r. [r ! a10]) vec))])"
    unfolding raw e2[symmetric] e3[symmetric] e4[symmetric] e5[symmetric] e6[symmetric]
      e7[symmetric] e8[symmetric] e9[symmetric] e10[symmetric] a1[symmetric]
      kacm_def[symmetric] kacr_def[symmetric] kcom_def[symmetric] kcsm_def[symmetric]
      kcor_def[symmetric] kcsr_def[symmetric]
    by (simp add: ks_def)
  show ?thesis
    unfolding raw2 Let_def adefs derive_def W_def S_def K_def D_def
    by (rule refl)
qed

section \<open>Claims about the codec\<close>

lemma convert_to_dict_keys:
  "convert_to_dict p vec = Inr d \<Longrightarrow> map fst d = dict_keys p"
  unfolding convert_to_dict_def Let_def bind_err_def dict_keys_def
  by (auto split: if_splits sum.splits)

lemma bind_err_Inr_D: "bind_err m f = Inr y \<Longrightarrow> \<exists>x. m = Inr x"
  by (cases m) (simp_all add: bind_err_def)

text \<open>
  Claim C1. For every parameter combination and every well-formed representation vector of
  full length (the length of \<^verbatim>\<open>representation_scales\<close>, which is the length of the
  vector \<^verbatim>\<open>forward\<close> returns when no scales are removed), \<^verbatim>\<open>convert_to_dict\<close> succeeds
  and \<^verbatim>\<open>convert_to_vector\<close> applied to its dictionary returns the very same tensor: the
  same shape and the same values.
\<close>

theorem convert_roundtrip:
  assumes "wf_vec vec" and "last_dim vec = length (representation_scales p)"
  shows "bind_err (convert_to_dict p vec) convert_to_vector = Inr vec"
  using assms by (rule roundtrip_aux)

theorem convert_roundtrip_witness:
  "wf_vec \<lparr>trailing = [80], body = [[[0..<80]]]\<rparr>
   \<and> bind_err (convert_to_dict
         \<lparr>n_scales = 1, n_orientations = 1, spatial_corr_width = 1, use_true_correlations = False\<rparr>
         \<lparr>trailing = [80], body = [[[0..<80]]]\<rparr>) convert_to_vector
     = Inr \<lparr>trailing = [80], body = [[[0..<80]]]\<rparr>"
proof -
  have wf: "wf_vec \<lparr>trailing = [80], body = [[[0..<80]]]\<rparr>"
    by (simp add: wf_vec_def wf_tensor_def)
  have len: "last_dim \<lparr>trailing = [80], body = [[[0..<80]]]\<rparr>
      = length (representation_scales
          \<lparr>n_scales = 1, n_orientations = 1, spatial_corr_width = 1, use_true_correlations = False\<rparr>)"
    by (simp add: last_dim_def length_representation_scales total_length_def ori_crossed_def)
  show ?thesis using wf convert_roundtrip[OF wf len] by simp
qed

text \<open>
  Claim C7. \<^verbatim>\<open>convert_to_dict\<close> raises if and only if the last dimension of the vector
  differs from the length of \<^verbatim>\<open>representation_scales\<close>; the error then carries the
  expected and the actual length. On a vector of full length it does not raise and parses
  the vector into the structured dictionary, consuming it from left to right: the six
  pixel statistics under the keys mean, var, skew, kurtosis, min and max (entries 0 to 5);
  the magnitude means under residual_highpass (entry 6), the band keys (scale,
  orientation) in scale-major order (entry 7 + scale * n_orientations + orientation) and
  residual_lowpass; then one tensor for each remaining statistic, the next block of the
  vector unflattened in row-major order to the shape of that statistic, std_reconstructed
  being present only with true correlations; the last entry is var_highpass_residual.
  Batch and channel axes are kept as they are.
\<close>

theorem convert_to_dict_length_check:
  assumes "wf_vec vec"
  shows "(isl (convert_to_dict p vec) \<longleftrightarrow> last_dim vec \<noteq> length (representation_scales p))
       \<and> (last_dim vec \<noteq> length (representation_scales p) \<longrightarrow>
            convert_to_dict p vec
              = Inl (WrongLength (length (representation_scales p)) (last_dim vec)))
       \<and> (last_dim vec = length (representation_scales p) \<longrightarrow>
            convert_to_dict p vec = Inr (
     let S = n_scales p; K = n_orientations p; W = spatial_corr_width p; D = max (2 * K) 5;
         entry = (\<lambda>i. \<lparr>trailing = [], body = map (map (\<lambda>r. [r ! i])) (body vec)\<rparr>);
         block = (\<lambda>a sh. \<lparr>trailing = sh,
                     body = map (map (\<lambda>r. take (prod_list sh) (drop a r))) (body vec)\<rparr>);
         a1 = 8 + K * S;
         a2 = a1 + W * W * S * K;
         a3 = a2 + (S + 1);
         a4 = a3 + (S + 1);
         a5 = a4 + W * W * (S + 1);
         a6 = (if use_true_correlations p then a5 + (S + 1) else a5);
         a7 = a6 + K * K * (S + 1);
         a8 = a7 + K * K * S;
         a9 = a8 + D * D * (S + 1);
         a10 = a9 + 2 * K * D * S
     in [(''pixel_statistics'',
            Nested [(KStr ''mean'', entry 0), (KStr ''var'', entry 1), (KStr ''skew'', entry 2),
                    (KStr ''kurtosis'', entry 3), (KStr ''min'', entry 4), (KStr ''max'', entry 5)]),
         (''magnitude_means'',
            Nested ([(KStr ''residual_highpass'', entry 6)]
                    @ concat (map (\<lambda>sc. map (\<lambda>ori. (KBand sc ori, entry (7 + sc * K + ori)))
                                            [0..<K]) [0..<S])
                    @ [(KStr ''residual_lowpass'', entry (7 + S * K))])),
         (''auto_correlation_magnitude'', Leaf (block a1 [W, W, S, K])),
         (''skew_reconstructed'', Leaf (block a2 [S + 1])),
         (''kurtosis_reconstructed'', Leaf (block a3 [S + 1])),
         (''auto_correlation_reconstructed'', Leaf (block a4 [W, W, S + 1]))]
        @ (if use_true_correlations p
           then [(''std_reconstructed'', Leaf (block a5 [S + 1]))] else [])
        @ [(''cross_orientation_correlation_magnitude'', Leaf (block a6 [K, K, S + 1])),
           (''cross_scale_correlation_magnitude'', Leaf (block a7 [K, K, S])),
           (''cross_orientation_correlation_real'', Leaf (block a8 [D, D, S + 1])),
           (''cross_scale_correlation_real'', Leaf (block a9 [2 * K, D, S])),
           (''var_highpass_residual'', Leaf (entry a10))]))"
proof -
  have bad: "convert_to_dict p vec
              = Inl (WrongLength (length (representation_scales p)) (last_dim vec))"
    if "last_dim vec \<noteq> length (representation_scales p)"
    using that by (simp add: convert_to_dict_def)
  note good = convert_to_dict_explicit[OF assms]
  show ?thesis
  proof (cases "last_dim vec = length (representation_scales p)")
    case True
    then show ?thesis using good[OF True] by (simp only: simp_thms sum.disc)
  next
    case False
    then show ?thesis using bad[OF False] by (simp only: simp_thms sum.disc)
  qed
qed

theorem convert_to_dict_length_check_witness:
  "convert_to_dict
         \<lparr>n_scales = 1, n_orientations = 1, spatial_corr_width = 1, use_true_correlations = False\<rparr>
         \<lparr>trailing = [3], body = [[[1, 2, 3 :: int]]]\<rparr> = Inl (WrongLength 80 3)
   \<and> convert_to_dict
         \<lparr>n_scales = 1, n_orientations = 1, spatial_corr_width = 1, use_true_correlations = False\<rparr>
         \<lparr>trailing = [80], body = [[[0..<80]]]\<rparr>
     = Inr [(''pixel_statistics'',
               Nested [(KStr ''mean'', \<lparr>trailing = [], body = [[[0]]]\<rparr>),
                       (KStr ''var'', \<lparr>trailing = [], body = [[[1]]]\<rparr>),
                       (KStr ''skew'', \<lparr>trailing = [], body = [[[2]]]\<rparr>),
                       (KStr ''kurtosis'', \<lparr>trailing = [], body = [[[3]]]\<rparr>),
                       (KStr ''min'', \<lparr>trailing = [], body = [[[4]]]\<rparr>),
                       (KStr ''max'', \<lparr>trailing = [], body = [[[5]]]\<rparr>)]),
            (''magnitude_means'',
               Nested [(KStr ''residual_highpass'', \<lparr>trailing = [], body = [[[6]]]\<rparr>),
                       (KBand 0 0, \<lparr>trailing = [], body = [[[7]]]\<rparr>),
                       (KStr ''residual_lowpass'', \<lparr>trailing = [], body = [[[8]]]\<rparr>)]),
            (''auto_correlation_magnitude'', Leaf \<lparr>trailing = [1, 1, 1, 1], body = [[[9]]]\<rparr>),
            (''skew_reconstructed'', Leaf \<lparr>trailing = [2], body = [[[10, 11]]]\<rparr>),
            (''kurtosis_reconstructed'', Leaf \<lparr>trailing = [2], body = [[[12, 13]]]\<rparr>),
            (''auto_correlation_reconstructed'', Leaf \<lparr>trailing = [1, 1, 2], body = [[[14, 15]]]\<rparr>),
            (''cross_orientation_correlation_magnitude'',
               Leaf \<lparr>trailing = [1, 1, 2], body = [[[16, 17]]]\<rparr>),
            (''cross_scale_correlation_magnitude'', Leaf \<lparr>trailing = [1, 1, 1], body = [[[18]]]\<rparr>),
            (''cross_orientation_correlation_real'',
               Leaf \<lparr>trailing = [5, 5, 2], body = [[[19..<69]]]\<rparr>),
            (''cross_scale_correlation_real'', Leaf \<lparr>trailing = [2, 5, 1], body = [[[69..<79]]]\<rparr>),
            (''var_highpass_residual'', Leaf \<lparr>trailing = [], body = [[[79]]]\<rparr>)]"
proof -
  let ?p = "\<lparr>n_scales = 1, n_orientations = 1, spatial_corr_width = 1, use_true_correlations = False\<rparr>"
  have wf3: "wf_vec \<lparr>trailing = [3], body = [[[1, 2, 3 :: int]]]\<rparr>"
    by (simp add: wf_vec_def wf_tensor_def)
  have wf80: "wf_vec \<lparr>trailing = [80], body = [[[0..<80]]]\<rparr>"
    by (simp add: wf_vec_def wf_tensor_def)
  have len: "length (representation_scales ?p) = 80"
    by (simp add: length_representation_scales total_length_def ori_crossed_def)
  have short: "convert_to_dict ?p \<lparr>trailing = [3], body = [[[1, 2, 3 :: int]]]\<rparr>
      = Inl (WrongLength 80 3)"
    using convert_to_dict_length_check[OF wf3, of ?p] unfolding len by (simp add: last_dim_def)
  have full: "last_dim \<lparr>trailing = [80], body = [[[0..<80]]]\<rparr> = length (representation_scales ?p)"
    unfolding len by (simp add: last_dim_def)
  show ?thesis
    using short convert_to_dict_length_check[OF wf80, of ?p] unfolding full
    by (simp add: Let_def)
qed

section \<open>The length of the vector that forward returns\<close>

lemma shrink_and_crop_shape_const:
  "2 \<le> length x \<Longrightarrow>
   shrink_and_crop_shape p x i = butlast (butlast x) @ [spatial_corr_width p, spatial_corr_width p]"
  by (simp add: shrink_and_crop_shape_def center_crop_shape_def shrink_shape_def butlast_append)

lemma list_all_map_const: "list_all (\<lambda>sh. sh = c) (map (\<lambda>i. c) xs)"
  by (induction xs) simp_all

lemma hd_map_const_upt: "0 < n \<Longrightarrow> hd (map (\<lambda>i. c) [0..<n]) = c"
  by (simp add: hd_map)

lemma compute_autocorr_shape_6:
  assumes "0 < s"
  shows "compute_autocorr_shape p [b, c, s, k, h, w]
         = Inr ([b, c, spatial_corr_width p, spatial_corr_width p, s, k], [b, c, s * k])"
proof -
  let ?W = "spatial_corr_width p"
  have cr: "map (shrink_and_crop_shape p [b, c, k, h, w]) [0..<s] = map (\<lambda>i. [b, c, k, ?W, ?W]) [0..<s]"
    by (simp add: shrink_and_crop_shape_const)
  show ?thesis
    using assms
    by (simp add: compute_autocorr_shape_def autocorrelation_shape_def center_crop_shape_def
        cr list_all_map_const hd_map_const_upt Let_def)
qed

lemma compute_autocorr_shape_5:
  assumes "0 < s"
  shows "compute_autocorr_shape p [b, c, s, h, w]
         = Inr ([b, c, spatial_corr_width p, spatial_corr_width p, s], [b, c, s])"
proof -
  let ?W = "spatial_corr_width p"
  have cr: "map (shrink_and_crop_shape p [b, c, h, w]) [0..<s] = map (\<lambda>i. [b, c, ?W, ?W]) [0..<s]"
    by (simp add: shrink_and_crop_shape_const)
  show ?thesis
    using assms
    by (simp add: compute_autocorr_shape_def autocorrelation_shape_def center_crop_shape_def
        cr list_all_map_const hd_map_const_upt Let_def)
qed

lemma concat_lowpass_to_cross_ori_real_shape_eq:
  "concat_lowpass_to_cross_ori_real_shape p [b, c, n_orientations p, n_orientations p, s] [b, c, h, w]
   = Inr [b, c, max (2 * n_orientations p) 5, max (2 * n_orientations p) 5, s + 1]"
  by (simp add: concat_lowpass_to_cross_ori_real_shape_def create_lowpass_corr_tensor_shape_def
      compute_crosscorrelation_shape_def shrink_shape_def bind_err_def Let_def max_def)

lemma concat_lowpass_to_cross_scale_real_shape_one:
  "n_scales p = 1 \<Longrightarrow>
   concat_lowpass_to_cross_scale_real_shape p [0] [b, c, h, w] [b, c, n_orientations p, h, w]
   = Inr [b, c, 2 * n_orientations p, max (2 * n_orientations p) 5, 1]"
  by (simp add: concat_lowpass_to_cross_scale_real_shape_def create_lowpass_corr_tensor_shape_def
      compute_crosscorrelation_shape_def shrink_shape_def bind_err_def Let_def max_def mult.commute)

lemma concat_lowpass_to_cross_scale_real_shape_more:
  "1 < n_scales p \<Longrightarrow> 0 < n_orientations p \<Longrightarrow> 0 < b \<Longrightarrow> 0 < c \<Longrightarrow>
   concat_lowpass_to_cross_scale_real_shape p
     [b, c, n_orientations p, n_orientations p + n_orientations p, n_scales p - 1]
     [b, c, h, w] [b, c, n_orientations p, h, w]
   = Inr [b, c, 2 * n_orientations p, max (2 * n_orientations p) 5, n_scales p]"
  by (simp add: concat_lowpass_to_cross_scale_real_shape_def create_lowpass_corr_tensor_shape_def
      compute_crosscorrelation_shape_def shrink_shape_def bind_err_def Let_def max_def mult.commute)


lemma broadcast_rev_same: "broadcast_rev xs xs = Inr xs"
  by (induction xs) (simp_all add: bind_err_def)

lemma broadcast_shapes_same: "broadcast_shapes xs xs = Inr xs"
  by (simp add: broadcast_shapes_def broadcast_rev_same bind_err_def)

lemma compute_skew_kurtosis_recon_shape_eq:
  assumes "0 < S" "0 < b" "0 < c"
  shows "compute_skew_kurtosis_recon_shape [b, c, Suc S, h, w] [b, c, Suc S] [b, c]
         = (if (c = b \<or> b = 1 \<or> c = 1) \<and> (Suc S = c \<or> c = 1)
            then Inr ([b, max c b, Suc S], [b, max c b, Suc S]) else Inl ShapeError)"
proof -
  have same: "broadcast_shapes (butlast (butlast [b, c, Suc S, h, w])) [b, c, Suc S]
              = Inr [b, c, Suc S]"
    using broadcast_shapes_same[of "[b, c, Suc S]"] by simp
  have div: "broadcast_shapes [b, c, Suc S] [b, c]
         = (if (c = b \<or> b = 1 \<or> c = 1) \<and> (Suc S = c \<or> c = 1)
            then Inr [b, max c b, Suc S] else Inl ShapeError)"
    using assms by (auto simp: broadcast_shapes_def bind_err_def max_def)
  have wh: "where_shape [b, max c b, Suc S] [b, c, Suc S] [b, c, Suc S] = Inr [b, max c b, Suc S]"
    if "c = b \<or> b = 1 \<or> c = 1"
    using that assms by (auto simp: where_shape_def broadcast_shapes_def bind_err_def max_def)
  show ?thesis
    unfolding compute_skew_kurtosis_recon_shape_def same div Let_def
    by (simp add: bind_err_def wh)
qed

lemma forward_shape_eq:
  assumes "1 \<le> n_scales p" "1 \<le> n_orientations p" "length img = 4" "list_all (\<lambda>d. 0 < d) img"
  shows "forward_shape p img
         = (if (img ! 0 = 1 \<and> img ! 1 = 1)
               \<or> (img ! 1 = n_scales p + 1 \<and> (img ! 0 = 1 \<or> img ! 0 = img ! 1))
            then Inr [img ! 0, img ! 1, length (representation_scales p)]
            else Inl ShapeError)"
proof -
  from assms(3) obtain b c h w where img: "img = [b, c, h, w]"
    by (cases img; cases "tl img"; cases "tl (tl img)"; cases "tl (tl (tl img))") auto
  with assms(4) have pos: "0 < b" "0 < c" by simp_all
  define S K W D where "S = n_scales p" and "K = n_orientations p"
    and "W = spatial_corr_width p" and "D = max (2 * n_orientations p) 5"
  have s: "0 < S" "0 < K" using assms by (simp_all add: S_def K_def)
  have ps: "compute_pixel_stats_shape [b, c, h, w] = Inr [b, c, 6]"
    by (simp add: compute_pixel_stats_shape_def pack_bc_def)
  have mm: "mag_means_shape [b, c, S, K, h, w] [b, c, h, w] [b, c, h, w] = Inr [b, c, S * K + 2]"
    by (simp add: mag_means_shape_def pack_bc_def)
  have acm: "compute_autocorr_shape p [b, c, S, K, h, w] = Inr ([b, c, W, W, S, K], [b, c, S * K])"
    unfolding W_def by (rule compute_autocorr_shape_6[OF s(1)])
  have acr: "compute_autocorr_shape p [b, c, Suc S, h, w] = Inr ([b, c, W, W, Suc S], [b, c, Suc S])"
    unfolding W_def by (rule compute_autocorr_shape_5) simp
  have cc: "compute_cross_correlation_shape [b, c, S, K, h, w] [b, c, S, K, h, w] = [b, c, K, K, S]"
    by (simp add: compute_cross_correlation_shape_def)
  have az: "append_zero_scale_shape [b, c, K, K, S] = [b, c, K, K, Suc S]"
    using s by (simp add: append_zero_scale_shape_def)
  have cor: "concat_lowpass_to_cross_ori_real_shape p [b, c, K, K, S] [b, c, h, w]
             = Inr [b, c, D, D, Suc S]"
    unfolding K_def D_def using concat_lowpass_to_cross_ori_real_shape_eq[of p b c S h w] by simp
  have ls: "last_scale_shape [b, c, S, K, h, w] = [b, c, K, h, w]"
    by (simp add: last_scale_shape_def)
  note defs = S_def K_def W_def D_def
  note facts = ps mm acm acr cc az cor ls
  define rest where "rest = (\<lambda>(skew_recon, kurtosis_recon). pack_bc
      ([[b, c, 6], [b, c, S * K + 2], [b, c, W, W, S, K], skew_recon, kurtosis_recon,
        [b, c, W, W, Suc S]]
       @ (if use_true_correlations p then [[b, c, Suc S]] else [])
       @ [[b, c, K, K, Suc S], [b, c, K, K, S], [b, c, D, D, Suc S], [b, c, 2 * K, D, S],
          [b, c]]))"
  have fs: "forward_shape p [b, c, h, w]
      = bind_err (compute_skew_kurtosis_recon_shape [b, c, Suc S, h, w] [b, c, Suc S] [b, c]) rest"
  proof (cases "S = 1")
    case True
    then have one: "n_scales p = 1" by (simp add: S_def)
    have csr: "concat_lowpass_to_cross_scale_real_shape p [0] [b, c, h, w] [b, c, K, h, w]
               = Inr [b, c, 2 * K, D, 1]"
      unfolding K_def D_def by (rule concat_lowpass_to_cross_scale_real_shape_one[OF one])
    show ?thesis
      unfolding forward_shape_def rest_def
      using one True
      by (simp add: Let_def bind_err_def facts[unfolded defs, unfolded one, simplified]
          csr[unfolded defs, simplified] defs split: sum.split)
  next
    case False
    with s have gt: "1 < n_scales p" and ne: "n_scales p \<noteq> 1" by (simp_all add: S_def)
    have dp: "double_phase_pyr_coeffs_shape [b, c, S, K, h, w]
              = ([b, c, S - 1, K, h, w], [b, c, S - 1, K + K, h, w])"
      by (simp add: double_phase_pyr_coeffs_shape_def)
    have dl: "drop_last_scale_shape [b, c, S, K, h, w] = [b, c, S - 1, K, h, w]"
      by (simp add: drop_last_scale_shape_def)
    have cc1: "compute_cross_correlation_shape [b, c, S - 1, K, h, w] [b, c, S - 1, K, h, w]
               = [b, c, K, K, S - 1]"
      by (simp add: compute_cross_correlation_shape_def)
    have cc2: "compute_cross_correlation_shape [b, c, S - 1, K, h, w] [b, c, S - 1, K + K, h, w]
               = [b, c, K, K + K, S - 1]"
      by (simp add: compute_cross_correlation_shape_def)
    have az': "append_zero_scale_shape [b, c, K, K, S - 1] = [b, c, K, K, S]"
      using gt by (simp add: append_zero_scale_shape_def S_def)
    have csr: "concat_lowpass_to_cross_scale_real_shape p [b, c, K, K + K, S - 1] [b, c, h, w]
                 [b, c, K, h, w] = Inr [b, c, 2 * K, D, S]"
      unfolding K_def D_def S_def
      using concat_lowpass_to_cross_scale_real_shape_more[OF gt _ pos, of h w] s
      by (simp add: K_def)
    show ?thesis
      unfolding forward_shape_def rest_def
      using ne
      by (simp add: Let_def bind_err_def facts[unfolded defs, simplified]
          dp[unfolded defs, simplified] dl[unfolded defs, simplified]
          cc1[unfolded defs, simplified] cc2[unfolded defs, simplified]
          az'[unfolded defs, simplified] csr[unfolded defs, simplified] defs split: sum.split)
  qed
  have ok: "rest ([b, c, Suc S], [b, c, Suc S]) = Inr [b, c, total_length p]"
    unfolding rest_def
    by (simp add: pack_bc_def total_length_def Let_def defs ori_crossed_def power2_eq_square
        algebra_simps)
  have bad: "rest ([b, c', Suc S], [b, c', Suc S]) = Inl ShapeError" if "c' \<noteq> c" for c'
    unfolding rest_def using that by (simp add: pack_bc_def)
  note sk = compute_skew_kurtosis_recon_shape_eq[OF s(1) pos, of h w]
  show ?thesis
  proof (cases "(b = 1 \<and> c = 1) \<or> (c = S + 1 \<and> (b = 1 \<or> b = c))")
    case True
    then have c: "(c = b \<or> b = 1 \<or> c = 1) \<and> (Suc S = c \<or> c = 1)" and m: "max c b = c"
      using pos by auto
    have "forward_shape p [b, c, h, w] = Inr [b, c, total_length p]"
      unfolding fs sk using c by (simp add: bind_err_def m ok)
    then show ?thesis using True by (simp add: img length_representation_scales S_def)
  next
    case False
    have "forward_shape p [b, c, h, w] = Inl ShapeError"
    proof (cases "(c = b \<or> b = 1 \<or> c = 1) \<and> (Suc S = c \<or> c = 1)")
      case True
      with False pos have "max c b \<noteq> c" by (auto simp: max_def)
      then show ?thesis unfolding fs sk using True by (simp add: bind_err_def bad)
    next
      case False
      then have "compute_skew_kurtosis_recon_shape [b, c, Suc S, h, w] [b, c, Suc S] [b, c]
                 = Inl ShapeError"
        unfolding sk by (simp only: if_False)
      then show ?thesis unfolding fs by (simp add: bind_err_def)
    qed
    then show ?thesis using False by (simp add: img S_def)
  qed
qed

lemma set_list_times: "set (list_times k xs) \<subseteq> set xs"
  by (induction k) (auto simp: list_times_def)

lemma labels_valid: "l \<in> set (representation_scales p) \<Longrightarrow> valid_label p l"
  by (auto simp: representation_scales_def get_representation_scales_def Let_def valid_label_def
      split: if_splits dest!: set_mp[OF set_list_times])

text \<open>
  Claim C2. Every entry of \<^verbatim>\<open>representation_scales\<close> is \<^verbatim>\<open>'pixel_statistics'\<close>,
  \<^verbatim>\<open>'residual_lowpass'\<close>, \<^verbatim>\<open>'residual_highpass'\<close> or an integer scale from 0 to
  n_scales - 1, and for a single image (batch 1, channel 1) the vector that \<^verbatim>\<open>forward\<close>
  assembles has the length of \<^verbatim>\<open>representation_scales\<close>. For a batch of two images with
  three channels of 16 by 16 pixels, with two scales, three orientations, a spatial
  correlation width of 3 and true correlations, \<^verbatim>\<open>representation_scales\<close> has 330
  entries, but \<^verbatim>\<open>forward\<close> does not return a vector of shape (2, 3, 330): it raises. The
  variances of the reconstructed images, of shape (2, 3, 3), are divided by the pixel
  variances, of shape (2, 3), and broadcasting aligns the channel axis of the first with
  the batch axis of the second.
\<close>

theorem forward_raises_on_batch:
  "forward_shape
     \<lparr>n_scales = 2, n_orientations = 3, spatial_corr_width = 3, use_true_correlations = True\<rparr>
     [2, 3, 16, 16]
   = Inl ShapeError
   \<and> length (representation_scales
       \<lparr>n_scales = 2, n_orientations = 3, spatial_corr_width = 3, use_true_correlations = True\<rparr>)
     = 330
   \<and> list_all (valid_label
         \<lparr>n_scales = 2, n_orientations = 3, spatial_corr_width = 3, use_true_correlations = True\<rparr>)
       (representation_scales
         \<lparr>n_scales = 2, n_orientations = 3, spatial_corr_width = 3, use_true_correlations = True\<rparr>)
   \<and> forward_shape
       \<lparr>n_scales = 2, n_orientations = 3, spatial_corr_width = 3, use_true_correlations = True\<rparr>
       [1, 1, 16, 16]
     = Inr [1, 1, 330]"
proof -
  let ?p = "\<lparr>n_scales = 2, n_orientations = 3, spatial_corr_width = 3, use_true_correlations = True\<rparr>"
  have len: "length (representation_scales ?p) = 330"
    by (simp add: length_representation_scales total_length_def ori_crossed_def)
  have lab: "list_all (valid_label ?p) (representation_scales ?p)"
    using labels_valid by (auto simp: list_all_iff)
  have raises: "forward_shape ?p [2, 3, 16, 16] = Inl ShapeError"
    using forward_shape_eq[of ?p "[2, 3, 16, 16]"] by simp
  have single: "forward_shape ?p [1, 1, 16, 16] = Inr [1, 1, 330]"
    using forward_shape_eq[of ?p "[1, 1, 16, 16]"] len by simp
  show ?thesis using len lab raises single by simp
qed

section \<open>Removing scales\<close>

lemma kept_indices_filter:
  "kept_indices p S
   = filter (\<lambda>i. representation_scales p ! i \<in> set S) [0..<length (representation_scales p)]"
proof -
  have "map fst (filter (\<lambda>(i, s). s \<in> set S) (zip [0..<length xs] xs))
        = filter (\<lambda>i. xs ! i \<in> set S) [0..<length xs]" for xs :: "scale_label list"
  proof (induction xs rule: rev_induct)
    case Nil
    then show ?case by simp
  next
    case (snoc x xs)
    have z: "zip [0..<length (xs @ [x])] (xs @ [x]) = zip [0..<length xs] xs @ [(length xs, x)]"
      by simp
    have f: "filter (\<lambda>i. (xs @ [x]) ! i \<in> set S) [0..<length xs]
           = filter (\<lambda>i. xs ! i \<in> set S) [0..<length xs]"
      by (rule filter_cong) (auto simp: nth_append)
    show ?case
      unfolding z using snoc.IH f by simp
  qed
  then show ?thesis by (simp add: kept_indices_def)
qed

lemma kept_indices_bound: "i \<in> set (kept_indices p S) \<Longrightarrow> i < length (representation_scales p)"
  by (simp add: kept_indices_filter)

lemma length_kept_indices:
  "length (kept_indices p S) = length (filter (\<lambda>s. s \<in> set S) (representation_scales p))"
proof -
  have "length (filter (\<lambda>(i, s). s \<in> set S) (zip [0..<length xs] xs))
      = length (filter (\<lambda>s. s \<in> set S) xs)" for xs :: "scale_label list"
  proof (induction xs rule: rev_induct)
    case Nil
    then show ?case by simp
  next
    case (snoc x xs)
    have z: "zip [0..<length (xs @ [x])] (xs @ [x]) = zip [0..<length xs] xs @ [(length xs, x)]"
      by simp
    show ?case unfolding z using snoc.IH by simp
  qed
  then show ?thesis by (simp add: kept_indices_def)
qed

text \<open>A label that is none of the labels of the representation selects nothing.\<close>

lemma kept_indices_inert:
  "kept_indices p S = kept_indices p (filter (valid_label p) S)"
  unfolding kept_indices_filter
  by (rule filter_cong) (auto dest: labels_valid[OF nth_mem])

text \<open>
  When at least one position is kept, \<^verbatim>\<open>remove_scales\<close> applied to a vector of full
  length returns the entries at the kept positions, in their original order.
\<close>

lemma remove_scales_mask:
  assumes "kept_indices p S \<noteq> []" and "last_dim v = length (representation_scales p)"
  shows "remove_scales p v S
         = Inr \<lparr>trailing = [length (filter (\<lambda>s. s \<in> set S) (representation_scales p))],
                body = map (map (\<lambda>r. map (\<lambda>i. r ! i) (kept_indices p S))) (body v)\<rparr>"
proof -
  have "\<not> list_ex (\<lambda>i. last_dim v \<le> i) (kept_indices p S)"
    using assms(2) by (auto simp: list_ex_iff dest: kept_indices_bound)
  then show ?thesis
    using assms(1) by (simp add: remove_scales_def index_select_last_def length_kept_indices)
qed

text \<open>
  A vector that \<^verbatim>\<open>remove_scales\<close> has really shortened (some label of the representation
  is not kept) is rejected by \<^verbatim>\<open>convert_to_dict\<close> with the length error.
\<close>

lemma convert_to_dict_after_remove_scales:
  assumes "remove_scales p v S = Inr v'"
    and "\<exists>l\<in>set (representation_scales p). l \<notin> set S"
  shows "convert_to_dict p v'
         = Inl (WrongLength (length (representation_scales p)) (length (kept_indices p S)))"
proof -
  from assms(1) have ld: "last_dim v' = length (kept_indices p S)"
    by (auto simp: remove_scales_def index_select_last_def last_dim_def split: if_splits)
  from assms(2) obtain l where "l \<in> set (representation_scales p)" "\<not> l \<in> set S"
    by blast
  then have "length (filter (\<lambda>s. s \<in> set S) (representation_scales p))
      < length (representation_scales p)"
    by (rule length_filter_less)
  then have "last_dim v' \<noteq> length (representation_scales p)"
    by (simp add: ld length_kept_indices)
  then show ?thesis by (simp add: convert_to_dict_def ld)
qed

text \<open>
  Claim C8 at an input where it fails. With an empty list of scales to keep no position is
  selected, the index tensor is \<^verbatim>\<open>torch.tensor([])\<close>, and \<^verbatim>\<open>index_select\<close> raises instead
  of returning the empty selection. The same happens for a list that holds only labels
  the representation does not use.
\<close>

theorem remove_scales_nothing_kept:
  "remove_scales p v [] = Inl IndexDtypeError
   \<and> remove_scales p v [ScaleStr ''texture''] = Inl IndexDtypeError"
proof -
  have "\<not> valid_label p (ScaleStr ''texture'')" by (simp add: valid_label_def)
  then have "kept_indices p [ScaleStr ''texture''] = kept_indices p []"
    using kept_indices_inert[of p "[ScaleStr ''texture'']"] by simp
  moreover have "kept_indices p [] = []" by (simp add: kept_indices_def)
  ultimately show ?thesis by (simp add: remove_scales_def index_select_last_def)
qed

section \<open>Pixel statistics and the moments of the reconstructed images\<close>

lemma take_6_forward_slice: "take 6 (forward_slice p img st) = compute_pixel_stats img"
  by (simp add: forward_slice_def compute_pixel_stats_def Let_def)

text \<open>
  Claim C3 as stated fails: on the 1 x 2 image with the pixels 0 and 2 the second entry of
  the representation is 2, the sum of squared deviations divided by N - 1, while the
  population variance is 1.
\<close>

theorem pixel_variance_counterexample:
  "forward_slice
     \<lparr>n_scales = 1, n_orientations = 1, spatial_corr_width = 1, use_true_correlations = False\<rparr>
     [[0, 2]]
     \<lparr>mag_means = [], autocorr_mags = [], skew_recon = [], kurtosis_recon = [],
      autocorr_recon = [], std_recon = [], cross_ori_corr_mags = [],
      cross_scale_corr_mags = [], cross_ori_corr_real = [], cross_scale_corr_real = [],
      var_highpass_residual = []\<rparr> ! 1
   \<noteq> population_variance (concat [[0, 2]])"
  by (simp add: forward_slice_def compute_pixel_stats_def Let_def torch_var_def mean_list_def
      population_variance_def)

text \<open>
  Claim C3, amended. The first six entries of the representation of a slice with at least
  two pixels are, in this order, the mean, the variance with Bessel's correction (the sum
  of squared deviations from the mean divided by N - 1), the skew and the kurtosis (the
  third and fourth central moments over the third and fourth power of the square root of
  that variance), the minimum and the maximum of the slice.
\<close>

theorem pixel_stats_first_six:
  assumes "2 \<le> length (concat img)"
  shows "take 6 (forward_slice p img st) =
     (let xs = concat img; n = real (length xs);
          \<mu> = sum_list xs / n;
          v = (\<Sum>x\<leftarrow>xs. (x - \<mu>)\<^sup>2) / (n - 1)
      in [\<mu>, v,
          ((\<Sum>x\<leftarrow>xs. (x - \<mu>) ^ 3) / n) / (sqrt v) ^ 3,
          ((\<Sum>x\<leftarrow>xs. (x - \<mu>) ^ 4) / n) / (sqrt v) ^ 4,
          Min (set xs), Max (set xs)])"
  by (simp add: take_6_forward_slice compute_pixel_stats_def Let_def torch_var_def mean_list_def
      stats_skew_def stats_kurtosis_def)

theorem pixel_stats_first_six_witness:
  "take 6 (forward_slice
     \<lparr>n_scales = 1, n_orientations = 1, spatial_corr_width = 1, use_true_correlations = False\<rparr>
     [[0, 2]]
     \<lparr>mag_means = [7], autocorr_mags = [], skew_recon = [], kurtosis_recon = [],
      autocorr_recon = [], std_recon = [], cross_ori_corr_mags = [],
      cross_scale_corr_mags = [], cross_ori_corr_real = [], cross_scale_corr_real = [],
      var_highpass_residual = []\<rparr>)
   = [1, 2, 0, 1 / 4, 0, 2]"
proof -
  have h: "2 \<le> length (concat [[0, 2 :: real]])" by simp
  show ?thesis
    using pixel_stats_first_six[OF h]
    by (simp add: Let_def power4_eq_xxxx power3_eq_cube)
qed

lemma sqrt_400000000: "sqrt 400000000 = 20000"
  by (rule real_sqrt_unique) simp_all

lemma compute_skew_kurtosis_recon_single:
  assumes "length reconstructed_images = length var_recon" and "var_recon \<noteq> []"
  shows "compute_skew_kurtosis_recon [[reconstructed_images]] [[var_recon]] [[img_var]]
         = Inr ([[map2 (\<lambda>im v. if ratio_exceeds v img_var (1 / 10 ^ 6)
                                then stats_skew (concat im) 0 v else 0)
                    reconstructed_images var_recon]],
                [[map2 (\<lambda>im v. if ratio_exceeds v img_var (1 / 10 ^ 6)
                                then stats_kurtosis (concat im) 0 v else 3)
                    reconstructed_images var_recon]])"
proof -
  let ?n = "length var_recon"
  have n: "max ?n (Suc 0) = ?n" using assms(2) by (cases var_recon) simp_all
  have b1: "bcast_index (Suc 0) j = 0" for j by (simp add: bcast_index_def)
  have b: "bcast_index ?n k = k" if "k < ?n" for k
    using that by (cases "?n = 1") (simp_all add: bcast_index_def)
  have row: "map (\<lambda>k. f (xs ! bcast_index ?n k)) [0..<?n] = map f (take ?n xs)"
    if "?n \<le> length xs" for f :: "'b \<Rightarrow> 'c" and xs
    using that by (intro nth_equalityI) (simp_all add: b)
  have u: "ratio_exceeds_broadcast [[var_recon]] [[img_var]] (1 / 10 ^ 6)
           = Inr [[map (\<lambda>v. ratio_exceeds v img_var (1 / 10 ^ 6)) var_recon]]"
    unfolding ratio_exceeds_broadcast_def Let_def
    using row[of var_recon "\<lambda>v. ratio_exceeds v img_var (1 / 10 ^ 6)"]
    by (simp add: broadcastable_def b1 n)
  have w: "where3 [[map g var_recon]] [[xs]] [[ds]]
         = [[map (\<lambda>k. if g (var_recon ! k) then xs ! k else ds ! k) [0..<?n]]]"
    if "length xs = ?n" for g and xs ds :: "real list"
    unfolding where3_def Let_def using that
    by (simp add: b1 b cong: map_cong)
  have fin: "map (\<lambda>k. if g (var_recon ! k) then map2 f reconstructed_images var_recon ! k
                       else map (\<lambda>_. d) (map2 f reconstructed_images var_recon) ! k) [0..<?n]
           = map2 (\<lambda>im v. if g v then f im v else d) reconstructed_images var_recon"
    for g and f :: "matrix \<Rightarrow> real \<Rightarrow> real" and d
    by (intro nth_equalityI) (simp_all add: assms(1))
  have e: "where3 [[map g var_recon]] [[map2 f reconstructed_images var_recon]]
              [[map (\<lambda>_. d) (map2 f reconstructed_images var_recon)]]
         = [[map2 (\<lambda>im v. if g v then f im v else d) reconstructed_images var_recon]]"
    for g and f :: "matrix \<Rightarrow> real \<Rightarrow> real" and d
  proof -
    have "length (map2 f reconstructed_images var_recon) = ?n" by (simp add: assms(1))
    from w[OF this, of g "map (\<lambda>_. d) (map2 f reconstructed_images var_recon)"]
    show ?thesis by (simp only: fin)
  qed
  have "compute_skew_kurtosis_recon [[reconstructed_images]] [[var_recon]] [[img_var]]
      = Inr (where3 [[map (\<lambda>v. ratio_exceeds v img_var (1 / 10 ^ 6)) var_recon]]
               [[map2 (\<lambda>im v. stats_skew (concat im) 0 v) reconstructed_images var_recon]]
               [[map (\<lambda>_. 0)
                   (map2 (\<lambda>im v. stats_skew (concat im) 0 v) reconstructed_images var_recon)]],
             where3 [[map (\<lambda>v. ratio_exceeds v img_var (1 / 10 ^ 6)) var_recon]]
               [[map2 (\<lambda>im v. stats_kurtosis (concat im) 0 v) reconstructed_images var_recon]]
               [[map (\<lambda>_. 3)
                   (map2 (\<lambda>im v. stats_kurtosis (concat im) 0 v) reconstructed_images var_recon)]])"
    unfolding compute_skew_kurtosis_recon_def Let_def u bind_err_def sum.case
    by simp
  then show ?thesis unfolding e .
qed

text \<open>
  Claim C6. An image of one batch and two channels is analysed with one scale, so that
  there are two reconstructed images for each channel. Every reconstructed image of
  channel 0 is the row 4, -1, -1, -1, -1, of mean 0 and variance 4, and the pixel variance
  of channel 0 is 5; channel 1 is channel 0 times 10000. For the second reconstructed
  image of channel 0 the ratio of its variance to the pixel variance of its image is 4/5,
  far above 1e-6, so its skew 3/2 and its kurtosis 13/4 should be emitted. The code
  emits 0 and 3: the division pairs the variance of band k of channel j with the pixel
  variance of channel k, here 4 with 500000000.
\<close>

theorem degenerate_variance_wrong_channel:
  "compute_skew_kurtosis_recon
     [[[[[4, - 1, - 1, - 1, - 1]], [[4, - 1, - 1, - 1, - 1]]],
       [[[40000, - 10000, - 10000, - 10000, - 10000]],
        [[40000, - 10000, - 10000, - 10000, - 10000]]]]]
     [[[4, 4], [400000000, 400000000]]]
     [[5, 500000000]]
   = Inr ([[[3 / 2, 0], [3 / 2, 3 / 2]]], [[[13 / 4, 3], [13 / 4, 13 / 4]]])
   \<and> ratio_exceeds 4 5 (1 / 10 ^ 6)
   \<and> central_skew [4, - 1, - 1, - 1, - 1] = 3 / 2
   \<and> central_kurtosis [4, - 1, - 1, - 1, - 1] = 13 / 4"
proof -
  have cs: "central_skew [4, - 1, - 1, - 1, - 1] = 3 / 2"
    by (simp add: central_skew_def population_variance_def mean_list_def)
  have ck: "central_kurtosis [4, - 1, - 1, - 1, - 1] = 13 / 4"
    by (simp add: central_kurtosis_def population_variance_def mean_list_def)
  have r: "ratio_exceeds 4 5 (1 / 10 ^ 6)" by (simp add: ratio_exceeds_def)
  have code: "compute_skew_kurtosis_recon
     [[[[[4, - 1, - 1, - 1, - 1]], [[4, - 1, - 1, - 1, - 1]]],
       [[[40000, - 10000, - 10000, - 10000, - 10000]],
        [[40000, - 10000, - 10000, - 10000, - 10000]]]]]
     [[[4, 4], [400000000, 400000000]]]
     [[5, 500000000]]
   = Inr ([[[3 / 2, 0], [3 / 2, 3 / 2]]], [[[13 / 4, 3], [13 / 4, 13 / 4]]])"
    by (simp add: compute_skew_kurtosis_recon_def ratio_exceeds_broadcast_def where3_def
        broadcastable_def bcast_index_def ratio_exceeds_def bind_err_def Let_def
        stats_skew_def stats_kurtosis_def mean_list_def sqrt_400000000 upt_rec)
  show ?thesis using code r cs ck by simp
qed

section \<open>Cross-correlation\<close>

text \<open>The divisor is height times width when the first band is a height by width matrix.\<close>

lemma num_spatial_height_width:
  assumes "t = (band # sc) # rest" "length band = h" "0 < h" "list_all (\<lambda>r. length r = w) band"
  shows "num_spatial t = h * w"
  using assms by (cases band) (simp_all add: num_spatial_def)

lemma einsum_cross_shape:
  assumes "regular_bands a n n1" "regular_bands b n n2"
  shows "length (einsum_cross a b) = n"
    and "\<And>s. s < n \<Longrightarrow> length (einsum_cross a b ! s) = n1"
    and "\<And>s i. s < n \<Longrightarrow> i < n1 \<Longrightarrow> length (einsum_cross a b ! s ! i) = n2"
    and "\<And>s i j. s < n \<Longrightarrow> i < n1 \<Longrightarrow> j < n2 \<Longrightarrow>
           einsum_cross a b ! s ! i ! j = spatial_inner (a ! s ! i) (b ! s ! j)"
  using assms by (simp_all add: einsum_cross_def regular_bands_def list_all_length)

lemma hd_conv_nth0: "xs \<noteq> [] \<Longrightarrow> hd xs = xs ! 0"
  by (cases xs) simp_all

lemma rearrange_s_last_nth:
  assumes "length x = n" "0 < n" "0 < n1"
    "\<forall>s<n. length (x ! s) = n1" "\<forall>s<n. \<forall>i<n1. length (x ! s ! i) = n2"
    "s < n" "i < n1" "j < n2"
  shows "rearrange_s_last x ! i ! j ! s = x ! s ! i ! j"
    and "length (rearrange_s_last x) = n1"
    and "length (rearrange_s_last x ! i) = n2"
    and "length (rearrange_s_last x ! i ! j) = n"
proof -
  have x: "x \<noteq> []" using assms(1,2) by auto
  have h1: "length (hd x) = n1" using assms x by (simp add: hd_conv_nth0)
  then have hx: "hd x \<noteq> []" using assms(3) by auto
  have h2: "length (hd (hd x)) = n2" using assms x hx by (simp add: hd_conv_nth0)
  show "rearrange_s_last x ! i ! j ! s = x ! s ! i ! j"
    "length (rearrange_s_last x) = n1"
    "length (rearrange_s_last x ! i) = n2"
    "length (rearrange_s_last x ! i ! j) = n"
    using assms by (simp_all add: rearrange_s_last_def h1 h2)
qed


text \<open>
  Claim C4 as stated fails in the true-correlation mode: with one scale, the two
  orientation bands (1, -1) and (2, -2) and the tensor correlated with itself, the entry
  for the first band with itself is 3/10, the covariance 1 divided by the variance 10/3
  of the whole scale, while the covariance divided by the product of the first band's
  standard deviations is 1/2.
\<close>

theorem cross_correlation_counterexample:
  "compute_cross_correlation
     \<lparr>n_scales = 1, n_orientations = 2, spatial_corr_width = 1, use_true_correlations = True\<rparr>
     [[[[1, -1]], [[2, -2]]]] [[[[1, -1]], [[2, -2]]]] ! 0 ! 0 ! 0
   \<noteq> band_normalised_entry [[[[1, -1]], [[2, -2]]]] [[[[1, -1]], [[2, -2]]]] 0 0 0"
  by (simp add: compute_cross_correlation_def einsum_cross_def rearrange_s_last_def
      spatial_inner_def num_spatial_def std_scale_def torch_std_def torch_var_def mean_list_def
      band_normalised_entry_def Let_def)

text \<open>
  Claim C4, amended. For two tensors with the same number of scales,
  \<^verbatim>\<open>_compute_cross_correlation\<close> returns, for every scale and every pair of orientations,
  the spatial inner product of the two bands divided by height times width; when
  \<^verbatim>\<open>use_true_correlations\<close> is set, every entry of a scale is further divided by the
  product of two standard deviations, one for each tensor, each taken over all
  orientation bands and all positions of that scale together. The output axes are
  (orientation1, orientation2, scale) after batch and channel.
\<close>

theorem cross_correlation_entries:
  assumes "regular_bands a n n1" and "regular_bands b n n2"
    and "s < n" and "i < n1" and "j < n2"
  shows "compute_cross_correlation p a b ! i ! j ! s
         = spatial_inner (a ! s ! i) (b ! s ! j) / real (num_spatial a)
           / (if use_true_correlations p then std_scale (a ! s) * std_scale (b ! s) else 1)
       \<and> length (compute_cross_correlation p a b) = n1
       \<and> length (compute_cross_correlation p a b ! i) = n2
       \<and> length (compute_cross_correlation p a b ! i ! j) = n"
proof -
  define x where "x = map (map (map (\<lambda>v. v / real (num_spatial a)))) (einsum_cross a b)"
  define y where "y = (if use_true_correlations p
             then map (\<lambda>(cs, as, bs). map (map (\<lambda>v. v / (std_scale as * std_scale bs))) cs)
                    (zip x (zip a b))
             else x)"
  have la: "length a = n" "length b = n"
    using assms by (simp_all add: regular_bands_def)
  have xs: "length x = n" "\<And>t. t < n \<Longrightarrow> length (x ! t) = n1"
    "\<And>t u. t < n \<Longrightarrow> u < n1 \<Longrightarrow> length (x ! t ! u) = n2"
    "\<And>t u v. t < n \<Longrightarrow> u < n1 \<Longrightarrow> v < n2 \<Longrightarrow>
       x ! t ! u ! v = spatial_inner (a ! t ! u) (b ! t ! v) / real (num_spatial a)"
    using einsum_cross_shape[OF assms(1,2)] by (simp_all add: x_def)
  have ys: "length y = n" "\<And>t. t < n \<Longrightarrow> length (y ! t) = n1"
    "\<And>t u. t < n \<Longrightarrow> u < n1 \<Longrightarrow> length (y ! t ! u) = n2"
    "\<And>t u v. t < n \<Longrightarrow> u < n1 \<Longrightarrow> v < n2 \<Longrightarrow>
       y ! t ! u ! v = spatial_inner (a ! t ! u) (b ! t ! v) / real (num_spatial a)
           / (if use_true_correlations p then std_scale (a ! t) * std_scale (b ! t) else 1)"
    using xs la by (simp_all add: y_def)
  have c: "compute_cross_correlation p a b = rearrange_s_last y"
    by (simp add: compute_cross_correlation_def Let_def x_def y_def)
  have pos: "0 < n" "0 < n1" using assms by simp_all
  from rearrange_s_last_nth[of y n n1 n2 s i j] ys pos assms(3-5)
  show ?thesis unfolding c by simp
qed

theorem cross_correlation_entries_witness:
  "compute_cross_correlation
     \<lparr>n_scales = 1, n_orientations = 2, spatial_corr_width = 1, use_true_correlations = True\<rparr>
     [[[[1, -1]], [[2, -2]]]] [[[[1, -1]], [[2, -2]]]] ! 0 ! 1 ! 0 = 3 / 5"
proof -
  have r: "regular_bands [[[[1, -1]], [[2, -2 :: real]]]] 1 2"
    by (simp add: regular_bands_def)
  have i: "(0 :: nat) < 1" "(0 :: nat) < 2" "(1 :: nat) < 2" by simp_all
  show ?thesis
    using cross_correlation_entries[OF r r i(1) i(2) i(3),
        of "\<lparr>n_scales = 1, n_orientations = 2, spatial_corr_width = 1,
              use_true_correlations = True\<rparr>"]
    by (simp add: spatial_inner_def num_spatial_def std_scale_def torch_std_def torch_var_def
        mean_list_def)
qed

section \<open>Pooling\<close>

lemma pool_nth:
  assumes "i < length windowed_x" "j < length (windowed_x ! i)"
    "length (windowed_x ! i ! j) = length windows" "k < length windows"
  shows "pool windows windowed_x ! i ! j ! k
         = sum_list (concat (windowed_x ! i ! j ! k))
           / (if sum_list (concat (windows ! k)) = 0 then 1 else sum_list (concat (windows ! k)))"
  using assms by (simp add: pool_def pool_divisor_def Let_def)

lemma sum_list_nonneg_zero:
  fixes xs :: "real list"
  assumes "list_all (\<lambda>x. 0 \<le> x) xs" "sum_list xs = 0"
  shows "list_all (\<lambda>x. x = 0) xs"
  using assms
proof (induction xs)
  case Nil
  then show ?case by simp
next
  case (Cons x xs)
  then have "0 \<le> x" "0 \<le> sum_list xs" by (auto simp: list_all_iff intro: sum_list_nonneg)
  with Cons.prems(2) have "x = 0" "sum_list xs = 0" by simp_all
  with Cons show ?case by simp
qed

lemma sum_list_concat_map2_zero:
  assumes "list_all (\<lambda>x. x = (0::real)) (concat w)"
  shows "sum_list (concat (map2 (map2 (\<lambda>u v. u * v)) im w)) = 0"
proof -
  have row: "sum_list (map2 (\<lambda>u v. u * v) r q) = 0" if "list_all (\<lambda>x. x = (0::real)) q" for r q
    using that by (induction r q rule: list_induct2') simp_all
  show ?thesis using assms
  proof (induction im w rule: list_induct2')
    case (4 x xs y ys)
    then show ?case by (simp add: row)
  qed simp_all
qed

text \<open>
  Claim C10 as stated fails: with a single window whose only weight is 0 and the windowed
  input 5 (which \<^verbatim>\<open>pool\<close> accepts, it does not check that its input came from
  \<^verbatim>\<open>window\<close>), the divisor is replaced by 1 and the output is 5, not 0.
\<close>

theorem pool_zero_window_counterexample:
  "sum_list (concat ([[[0]]] ! 0)) = (0 :: real) \<and> pool [[[0]]] [[[[[5]]]]] ! 0 ! 0 ! 0 \<noteq> 0"
  by (simp add: pool_def pool_divisor_def)

text \<open>
  Claim C10, amended. \<^verbatim>\<open>pool\<close> divides the summed response of every window by the total
  weight of that window, and by 1 when that total is exactly zero, so for such a window
  the output is the plain sum of the windowed input. When the windowed input was produced
  by \<^verbatim>\<open>window\<close> with the same windows and the weights of the window are non-negative, that
  sum, and with it the output, is 0.
\<close>

theorem pool_weighted_average:
  assumes "i < length windowed_x" and "j < length (windowed_x ! i)"
    and "length (windowed_x ! i ! j) = length windows" and "k < length windows"
  shows "pool windows windowed_x ! i ! j ! k
         = sum_list (concat (windowed_x ! i ! j ! k))
           / (if sum_list (concat (windows ! k)) = 0 then 1 else sum_list (concat (windows ! k)))
       \<and> (sum_list (concat (windows ! k)) = 0 \<longrightarrow>
            pool windows windowed_x ! i ! j ! k = sum_list (concat (windowed_x ! i ! j ! k)))
       \<and> (sum_list (concat (windows ! k)) = 0 \<and> list_all (\<lambda>x. 0 \<le> x) (concat (windows ! k))
          \<and> windowed_x = window windows x \<longrightarrow> pool windows windowed_x ! i ! j ! k = 0)"
proof -
  note p = pool_nth[OF assms]
  have "pool windows windowed_x ! i ! j ! k = 0"
    if z: "sum_list (concat (windows ! k)) = 0" "list_all (\<lambda>x. 0 \<le> x) (concat (windows ! k))"
      and w: "windowed_x = window windows x"
  proof -
    have all0: "list_all (\<lambda>x. x = 0) (concat (windows ! k))"
      by (rule sum_list_nonneg_zero[OF z(2,1)])
    have ij: "i < length x" "j < length (x ! i)"
      using assms(1,2) unfolding w by (simp_all add: window_def)
    have "windowed_x ! i ! j ! k = map2 (map2 (\<lambda>u v. u * v)) (x ! i ! j) (windows ! k)"
      unfolding w using ij assms(4) by (simp add: window_def)
    then show ?thesis
      unfolding p by (simp add: sum_list_concat_map2_zero[OF all0])
  qed
  then show ?thesis using p by simp
qed

theorem pool_weighted_average_witness:
  "pool [[[1, 3]], [[0, 0]]] (window [[[1, 3]], [[0, 0]]] [[[[2, 4]]]]) = [[[7 / 2, 0]]]"
proof -
  let ?ws = "[[[1, 3]], [[0, 0 :: real]]]"
  let ?wx = "window ?ws [[[[2, 4]]]]"
  have wx: "?wx = [[[[[2, 12]], [[0, 0]]]]]" by (simp add: window_def)
  have a: "0 < length ?wx" "0 < length (?wx ! 0)" "length (?wx ! 0 ! 0) = length ?ws"
    "0 < length ?ws" "1 < length ?ws"
    by (simp_all add: wx)
  from pool_weighted_average[OF a(1,2,3,4)] pool_weighted_average[OF a(1,2,3,5), of "[[[[2, 4]]]]"]
  have "pool ?ws ?wx ! 0 ! 0 ! 0 = 7 / 2" "pool ?ws ?wx ! 0 ! 0 ! 1 = 0"
    by (simp_all add: wx)
  moreover have "length (pool ?ws ?wx) = 1" "length (pool ?ws ?wx ! 0) = 1"
    "length (pool ?ws ?wx ! 0 ! 0) = 2"
    by (simp_all add: wx pool_def pool_divisor_def)
  ultimately show ?thesis
    by (auto simp: length_Suc_conv numeral_2_eq_2)
qed

section \<open>Phase doubling\<close>

lemma modulate_phase_double:
  "modulate_phase z 2 = (if z = 0 then 0 else z * z / of_real (cmod z))"
proof (cases "z = 0")
  case True
  then show ?thesis by (simp add: modulate_phase_def)
next
  case False
  have z: "z = of_real (cmod z) * cis (Arg z)"
    using rcis_cmod_Arg[of z] by (simp add: rcis_def)
  have c2: "cis (2 * Arg z) = cis (Arg z) * cis (Arg z)"
    by (simp add: cis_mult)
  have "z * z = (of_real (cmod z) * cis (Arg z)) * (of_real (cmod z) * cis (Arg z))"
    by (metis z)
  also have "\<dots> = of_real (cmod z) * (of_real (cmod z) * cis (2 * Arg z))"
    unfolding c2 by (simp only: mult_ac)
  finally show ?thesis using False by (simp add: modulate_phase_def)
qed


lemma sqrt_25: "sqrt 25 = 5"
proof -
  have "sqrt 25 = sqrt (5\<^sup>2)" by simp
  also have "\<dots> = 5" by (simp only: real_sqrt_abs abs_numeral)
  finally show ?thesis .
qed


text \<open>
  Claim C9. Every oriented coefficient z at the scales 1 to n_scales - 1 is replaced by
  the coefficient with the same modulus and twice the phase angle,
  z' = |z| * exp (2 i arg z). The first result has one band for every input band of those
  scales: it holds, at each position, the modulus of z' minus the mean of the moduli of
  all the phase-doubled coefficients of that band (the sum over the band divided by the
  number of its entries). The second result has twice as many orientation slots: slot k
  holds the negated real part and slot k + n_orientations the imaginary part of the
  phase-doubled band k. Both results have n_scales - 1 scales: scale 0, the finest, is
  not part of them.
\<close>

theorem double_phase_structure:
  assumes "regular_cbands pyr_coeffs n_sc n_ori" and "1 \<le> s" and "s < n_sc" and "k < n_ori"
  shows "length (fst (double_phase_pyr_coeffs pyr_coeffs)) = n_sc - 1
       \<and> length (snd (double_phase_pyr_coeffs pyr_coeffs)) = n_sc - 1
       \<and> length (fst (double_phase_pyr_coeffs pyr_coeffs) ! (s - 1)) = n_ori
       \<and> length (snd (double_phase_pyr_coeffs pyr_coeffs) ! (s - 1)) = 2 * n_ori
       \<and> fst (double_phase_pyr_coeffs pyr_coeffs) ! (s - 1) ! k
           = map (map (\<lambda>z. cmod (of_real (cmod z) * cis (2 * Arg z))
                   - sum_list (map (\<lambda>w. cmod (of_real (cmod w) * cis (2 * Arg w)))
                        (concat (pyr_coeffs ! s ! k)))
                     / real (length (concat (pyr_coeffs ! s ! k)))))
               (pyr_coeffs ! s ! k)
       \<and> snd (double_phase_pyr_coeffs pyr_coeffs) ! (s - 1) ! k
           = map (map (\<lambda>z. - Re (of_real (cmod z) * cis (2 * Arg z)))) (pyr_coeffs ! s ! k)
       \<and> snd (double_phase_pyr_coeffs pyr_coeffs) ! (s - 1) ! (k + n_ori)
           = map (map (\<lambda>z. Im (of_real (cmod z) * cis (2 * Arg z)))) (pyr_coeffs ! s ! k)"
proof -
  have len: "length pyr_coeffs = n_sc" and ori: "length (pyr_coeffs ! s) = n_ori"
    using assms by (simp_all add: regular_cbands_def list_all_length)
  have s': "s - 1 < length pyr_coeffs - 1" "Suc (s - 1) = s"
    using assms len by simp_all
  have cc: "concat (map (map cmod) (map (map f) b)) = map (\<lambda>w. cmod (f w)) (concat b)"
    for f :: "complex \<Rightarrow> complex" and b
    by (simp add: map_concat comp_def)
  have dm: "demeaned_magnitude (map (map f) b)
          = map (map (\<lambda>z. cmod (f z) - sum_list (map (\<lambda>w. cmod (f w)) (concat b))
                                     / real (length (concat b)))) b"
    for f :: "complex \<Rightarrow> complex" and b
    unfolding demeaned_magnitude_def Let_def cc mean_list_def
    by (simp add: comp_def)
  show ?thesis
    using assms(4) s' ori len
    by (simp add: double_phase_pyr_coeffs_def Let_def nth_append modulate_phase_def comp_def dm)
qed

theorem double_phase_structure_witness:
  "double_phase_pyr_coeffs [[[[1, 1]], [[2, 2]]], [[[Complex 3 4, 0]], [[\<i>, 2]]]]
   = ([[[[5 / 2, - 5 / 2]], [[- 1 / 2, 1 / 2]]]],
      [[[[7 / 5, 0]], [[1, - 2]], [[24 / 5, 0]], [[0, 0]]]])"
proof -
  let ?pyr = "[[[[1, 1]], [[2, 2]]], [[[Complex 3 4, 0]], [[\<i>, 2 :: complex]]]]"
  have r: "regular_cbands ?pyr 2 2" by (simp add: regular_cbands_def)
  have i: "(1::nat) \<le> 1" "(1::nat) < 2" "(0::nat) < 2" by simp_all
  have m: "of_real (cmod z) * cis (2 * Arg z) = (if z = 0 then 0 else z * z / of_real (cmod z))" for z
    using modulate_phase_double[of z] by (simp add: modulate_phase_def)
  have c34: "cmod (Complex 3 4) = 5"
    by (simp add: cmod_def power2_eq_square sqrt_25)
  have n0: "Complex 3 4 \<noteq> 0" by (simp add: complex_eq_iff)
  have sq: "Complex 3 4 * Complex 3 4 / 5 = Complex (- 7 / 5) (24 / 5)"
    by (simp add: complex_eq_iff)
  have c2: "cmod (Complex (- (7 / 5)) (24 / 5)) = 5"
  proof -
    have "(- (7 / 5) :: real)\<^sup>2 + (24 / 5)\<^sup>2 = 25" by (simp add: power2_eq_square)
    then show ?thesis by (simp only: cmod_def complex.sel sqrt_25)
  qed
  from double_phase_structure[OF r i(1) i(2) i(3)] double_phase_structure[OF r i(1) i(2) i(2)]
  have "length (fst (double_phase_pyr_coeffs ?pyr)) = 1"
    "length (snd (double_phase_pyr_coeffs ?pyr)) = 1"
    "length (fst (double_phase_pyr_coeffs ?pyr) ! 0) = 2"
    "length (snd (double_phase_pyr_coeffs ?pyr) ! 0) = 4"
    "fst (double_phase_pyr_coeffs ?pyr) ! 0 ! 0 = [[5 / 2, - 5 / 2]]"
    "fst (double_phase_pyr_coeffs ?pyr) ! 0 ! 1 = [[- 1 / 2, 1 / 2]]"
    "snd (double_phase_pyr_coeffs ?pyr) ! 0 ! 0 = [[7 / 5, 0]]"
    "snd (double_phase_pyr_coeffs ?pyr) ! 0 ! 1 = [[1, - 2]]"
    "snd (double_phase_pyr_coeffs ?pyr) ! 0 ! 2 = [[24 / 5, 0]]"
    "snd (double_phase_pyr_coeffs ?pyr) ! 0 ! 3 = [[0, 0]]"
    by (simp_all add: m c34 n0 sq c2 eval_nat_numeral)
  then show ?thesis
    by (cases "double_phase_pyr_coeffs ?pyr")
       (auto simp: length_Suc_conv eval_nat_numeral)
qed


section \<open>Lowpass stitching\<close>



lemma length_roll [simp]: "length (roll_fwd r) = length r" "length (roll_back r) = length r"
  by (cases "r = []"; simp add: roll_fwd_def roll_back_def)+




lemma pad_end_shape:
  assumes "m \<noteq> []" "\<forall>row\<in>set m. length row = n"
  shows "length (pad_end z r c m) = length m + r"
    and "i < length m + r \<Longrightarrow> length (pad_end z r c m ! i) = n + c"
    and "i < length m + r \<Longrightarrow> j < n + c \<Longrightarrow>
         pad_end z r c m ! i ! j = (if i < length m \<and> j < n then m ! i ! j else z)"
proof -
  have hd: "length (hd m) = n" using assms by (cases m) auto
  show "length (pad_end z r c m) = length m + r" by (simp add: pad_end_def)
  show "i < length m + r \<Longrightarrow> length (pad_end z r c m ! i) = n + c"
    using assms by (auto simp: pad_end_def nth_append hd)
  show "i < length m + r \<Longrightarrow> j < n + c \<Longrightarrow>
         pad_end z r c m ! i ! j = (if i < length m \<and> j < n then m ! i ! j else z)"
    using assms by (auto simp: pad_end_def nth_append hd)
qed











end
